theory Spec2Isabelle
  imports Main "HOL-Library.AList" "HOL-Library.Char_ord" "HOL-Library.List_Lexorder"
    "HOL-Library.Multiset"
begin

section \<open>Paths, identifiers and errors\<close>

type_synonym path = string
type_synonym bytes = string

text \<open>A block bid is represented by its canonical 26 character text, the value of
  \<^verbatim>\<open>id.String()\<close>.\<close>

type_synonym ulid = string

definition MetaFilename :: string where
  "MetaFilename = ''meta.json''"

definition IndexFilename :: string where
  "IndexFilename = ''index''"

definition ChunksDirname :: string where
  "ChunksDirname = ''chunks''"

definition DirDelim :: string where
  "DirDelim = ''/''"

text \<open>Modelled from the spec: the three mark file names are constants of
  \<^verbatim>\<open>metadata/markers.go\<close>, which is not among the sources; the persisted object
  layout of the spec gives their values.\<close>

definition DeletionMarkFilename :: string where
  "DeletionMarkFilename = ''deletion-mark.json''"

definition NoCompactMarkFilename :: string where
  "NoCompactMarkFilename = ''no-compact-mark.json''"

definition NoDownsampleMarkFilename :: string where
  "NoDownsampleMarkFilename = ''no-downsample-mark.json''"

text \<open>Modelled from the spec: the schema versions of the marks (``fixed schema version'');
  the constants live in the missing \<^verbatim>\<open>markers.go\<close>.\<close>

definition DeletionMarkVersion1 :: int where
  "DeletionMarkVersion1 = 1"

definition NoCompactMarkVersion1 :: int where
  "NoCompactMarkVersion1 = 1"

definition NoDownsampleMarkVersion1 :: int where
  "NoDownsampleMarkVersion1 = 1"

text \<open>\<^verbatim>\<open>path.Join\<close> and \<^verbatim>\<open>filepath.Join\<close> on components that are already clean
  (no empty, dot or dot-dot segments, no trailing delimiter): empty components are dropped and
  the others are joined by the delimiter.\<close>

definition Join :: "path \<Rightarrow> path \<Rightarrow> path" where
  "Join a b = (if a = [] then b else if b = [] then a else a @ DirDelim @ b)"

definition HasSuffix :: "string \<Rightarrow> string \<Rightarrow> bool" where
  "HasSuffix s suf = (length suf \<le> length s \<and> drop (length s - length suf) s = suf)"

definition HasPrefix :: "string \<Rightarrow> string \<Rightarrow> bool" where
  "HasPrefix s pre = (take (length pre) s = pre)"

text \<open>Calls of the object store client, as they are recorded in the trace of a bucket.\<close>

datatype store_op = OpExists path | OpUpload path | OpDelete path | OpGet path | OpIter path

text \<open>Errors are values. \<open>Wrap e msg\<close> is \<^verbatim>\<open>errors.Wrap(e, msg)\<close>, \<open>Errorf msg\<close> is
  \<^verbatim>\<open>errors.New\<close> or \<^verbatim>\<open>errors.Errorf\<close>.\<close>

datatype error =
    StoreFailure store_op
  | ObjectNotFound path
  | NotExist path
  | FsFailure string path
  | JSONError string
  | HashError string
  | InvalidULID string
  | UnexpectedVersion int
  | UnexpectedThanosVersion int
  | Errorf string
  | Wrap error string

text \<open>A reader (\<^verbatim>\<open>io.ReadCloser\<close>) carries the outcome of reading the stream to its end and
  of closing it.\<close>

record reader =
  rc_read :: "error + bytes"
  rc_close :: "error option"

section \<open>The object store client\<close>

text \<open>The bucket is the in-memory object store: a flat association list from object names
  to contents. Every call of the client is recorded in \<open>trace\<close> with its outcome. Transport
  failures are injected by \<open>faulty\<close>: the call number \<open>n\<close> of the client fails when
  \<open>faulty n\<close>, and a failed call has no effect on the objects. \<open>badbody name\<close> makes the
  stream returned by a successful \<^verbatim>\<open>Get\<close> of \<open>name\<close> fail while it is read.\<close>

record bkt =
  objects :: "(path \<times> bytes) list"
  faulty :: "nat \<Rightarrow> bool"
  badbody :: "path \<Rightarrow> bool"
  calls :: nat
  trace :: "(store_op \<times> bool) list"

definition called :: "bkt \<Rightarrow> store_op \<Rightarrow> bool \<Rightarrow> bkt" where
  "called b op ok = b\<lparr>calls := Suc (calls b), trace := trace b @ [(op, ok)]\<rparr>"

definition bkt_Exists :: "bkt \<Rightarrow> path \<Rightarrow> (error + bool) \<times> bkt" where
  "bkt_Exists b name =
     (if faulty b (calls b) then (Inl (StoreFailure (OpExists name)), called b (OpExists name) False)
      else (Inr (map_of (objects b) name \<noteq> None), called b (OpExists name) True))"

definition bkt_Upload :: "bkt \<Rightarrow> path \<Rightarrow> bytes \<Rightarrow> error option \<times> bkt" where
  "bkt_Upload b name r =
     (if faulty b (calls b) then (Some (StoreFailure (OpUpload name)), called b (OpUpload name) False)
      else (None, (called b (OpUpload name) True)\<lparr>objects := AList.update name r (objects b)\<rparr>))"

definition bkt_Delete :: "bkt \<Rightarrow> path \<Rightarrow> error option \<times> bkt" where
  "bkt_Delete b name =
     (if faulty b (calls b) then (Some (StoreFailure (OpDelete name)), called b (OpDelete name) False)
      else if map_of (objects b) name = None
        then (Some (ObjectNotFound name), called b (OpDelete name) False)
      else (None, (called b (OpDelete name) True)\<lparr>objects := AList.delete name (objects b)\<rparr>))"

definition bkt_Get :: "bkt \<Rightarrow> path \<Rightarrow> (error + reader) \<times> bkt" where
  "bkt_Get b name =
     (if faulty b (calls b) then (Inl (StoreFailure (OpGet name)), called b (OpGet name) False)
      else (case map_of (objects b) name of
              None \<Rightarrow> (Inl (ObjectNotFound name), called b (OpGet name) False)
            | Some r \<Rightarrow>
                (Inr \<lparr>rc_read = (if badbody b name then Inl (StoreFailure (OpGet name)) else Inr r),
                      rc_close = None\<rparr>,
                 called b (OpGet name) True)))"

section \<open>Marks\<close>

record DeletionMark =
  dm_ID :: ulid
  dm_DeletionTime :: int
  dm_Version :: int
  dm_Details :: string

record NoCompactMark =
  ncm_ID :: ulid
  ncm_Version :: int
  ncm_NoCompactTime :: int
  ncm_Reason :: string
  ncm_Details :: string

record NoDownsampleMark =
  ndm_ID :: ulid
  ndm_Version :: int
  ndm_NoDownsampleTime :: int
  ndm_Reason :: string
  ndm_Details :: string

section \<open>Block descriptor\<close>

type_synonym HashFunc = string

text \<open>Modelled from the spec: \<^verbatim>\<open>NoneFunc\<close>, the trivial hash function (``hashing is an
  explicit, skippable cost''), is a constant of \<^verbatim>\<open>metadata/hash.go\<close>, which is not among
  the sources. It is the zero value of the string type \<^verbatim>\<open>HashFunc\<close>.\<close>

definition NoneFunc :: HashFunc where
  "NoneFunc = []"

record ObjectHash =
  Func :: HashFunc
  Value :: string

record File =
  RelPath :: string
  SizeBytes :: int
  Hash :: "ObjectHash option"

text \<open>The Thanos section of the descriptor. \<open>Labels\<close> is a Go map: \<open>None\<close> is the nil map,
  \<open>Some kvs\<close> an allocated map with the entries \<open>kvs\<close>. The fields \<^verbatim>\<open>Rewrites\<close>,
  \<^verbatim>\<open>IndexStats\<close> and \<^verbatim>\<open>Extensions\<close> and the statistics and compaction parts of the TSDB
  header are carried by no operation of this development and are left out.\<close>

record Thanos =
  Thanos_Version :: int
  Labels :: "(string \<times> string) list option"
  Downsample_Resolution :: int
  Source :: string
  SegmentFiles :: "string list"
  Files :: "File list"
  UploadTime :: int

record Meta =
  ULID :: ulid
  MinTime :: int
  MaxTime :: int
  Version :: int
  Thanos :: Thanos

definition TSDBVersion1 :: int where
  "TSDBVersion1 = 1"

definition ThanosVersion1 :: int where
  "ThanosVersion1 = 1"

text \<open>\<^verbatim>\<open>len\<close> of a Go map; the nil map has length 0.\<close>

definition len_map :: "('k \<times> 'v) list option \<Rightarrow> nat" where
  "len_map m = (case m of None \<Rightarrow> 0 | Some kvs \<Rightarrow> length (remdups (map fst kvs)))"

section \<open>Library functions taken as parameters\<close>

text \<open>The functions of libraries outside the repository that the operations call on data:
  \<^item> \<open>decodeMeta\<close>: \<^verbatim>\<open>encoding/json\<close> decoding a document into a zero \<^verbatim>\<open>Meta\<close>
    (\<^verbatim>\<open>json.Decoder.Decode\<close>, \<^verbatim>\<open>json.Unmarshal\<close>); a field absent from the document
    keeps its zero value (\<open>0\<close>, the nil map);
  \<^item> \<open>encodeMeta\<close>: the indented \<^verbatim>\<open>json.Encoder.Encode\<close> of a \<^verbatim>\<open>Meta\<close>;
  \<^item> the three \<^verbatim>\<open>json.Marshal\<close> calls on marks;
  \<^item> \<open>ulidParse\<close>: \<^verbatim>\<open>ulid.Parse\<close>, giving the canonical text of the id;
  \<^item> \<open>digest\<close>: the supported content hash functions by name.\<close>

record lib =
  decodeMeta :: "bytes \<Rightarrow> error + Meta"
  encodeMeta :: "Meta \<Rightarrow> error + bytes"
  marshalDeletionMark :: "DeletionMark \<Rightarrow> error + bytes"
  marshalNoCompactMark :: "NoCompactMark \<Rightarrow> error + bytes"
  marshalNoDownsampleMark :: "NoDownsampleMark \<Rightarrow> error + bytes"
  ulidParse :: "string \<Rightarrow> error + ulid"
  digest :: "HashFunc \<Rightarrow> (bytes \<Rightarrow> string) option"

section \<open>Mark manager\<close>

text \<open>The mark operations. \<open>now\<close> is the reading of \<^verbatim>\<open>time.Now().Unix()\<close>; the counter
  is passed in and returned. Log lines are not modelled.\<close>

definition MarkForDeletion ::
  "lib \<Rightarrow> int \<Rightarrow> bkt \<Rightarrow> ulid \<Rightarrow> string \<Rightarrow> nat \<Rightarrow> error option \<times> bkt \<times> nat" where
  "MarkForDeletion js now b bid details markedForDeletion =
     (let deletionMarkFile = Join bid DeletionMarkFilename in
      case bkt_Exists b deletionMarkFile of
        (Inl err, b1) \<Rightarrow> (Some (Wrap err ''check exists in bucket''), b1, markedForDeletion)
      | (Inr deletionMarkExists, b1) \<Rightarrow>
          if deletionMarkExists then (None, b1, markedForDeletion)
          else (case marshalDeletionMark js
                   \<lparr>dm_ID = bid, dm_DeletionTime = now, dm_Version = DeletionMarkVersion1,
                    dm_Details = details\<rparr> of
                  Inl err \<Rightarrow> (Some (Wrap err ''json encode deletion mark''), b1, markedForDeletion)
                | Inr deletionMark \<Rightarrow>
                    (case bkt_Upload b1 deletionMarkFile deletionMark of
                       (Some err, b2) \<Rightarrow> (Some (Wrap err ''upload file to bucket''), b2, markedForDeletion)
                     | (None, b2) \<Rightarrow> (None, b2, Suc markedForDeletion))))"

definition MarkForNoCompact ::
  "lib \<Rightarrow> int \<Rightarrow> bkt \<Rightarrow> ulid \<Rightarrow> string \<Rightarrow> string \<Rightarrow> nat \<Rightarrow> error option \<times> bkt \<times> nat" where
  "MarkForNoCompact js now b bid reason details markedForNoCompact =
     (let m = Join bid NoCompactMarkFilename in
      case bkt_Exists b m of
        (Inl err, b1) \<Rightarrow> (Some (Wrap err ''check exists in bucket''), b1, markedForNoCompact)
      | (Inr noCompactMarkExists, b1) \<Rightarrow>
          if noCompactMarkExists then (None, b1, markedForNoCompact)
          else (case marshalNoCompactMark js
                   \<lparr>ncm_ID = bid, ncm_Version = NoCompactMarkVersion1, ncm_NoCompactTime = now,
                    ncm_Reason = reason, ncm_Details = details\<rparr> of
                  Inl err \<Rightarrow> (Some (Wrap err ''json encode no compact mark''), b1, markedForNoCompact)
                | Inr noCompactMark \<Rightarrow>
                    (case bkt_Upload b1 m noCompactMark of
                       (Some err, b2) \<Rightarrow> (Some (Wrap err ''upload file to bucket''), b2, markedForNoCompact)
                     | (None, b2) \<Rightarrow> (None, b2, Suc markedForNoCompact))))"

definition MarkForNoDownsample ::
  "lib \<Rightarrow> int \<Rightarrow> bkt \<Rightarrow> ulid \<Rightarrow> string \<Rightarrow> string \<Rightarrow> nat \<Rightarrow> error option \<times> bkt \<times> nat" where
  "MarkForNoDownsample js now b bid reason details markedForNoDownsample =
     (let m = Join bid NoDownsampleMarkFilename in
      case bkt_Exists b m of
        (Inl err, b1) \<Rightarrow> (Some (Wrap err ''check exists in bucket''), b1, markedForNoDownsample)
      | (Inr noDownsampleMarkExists, b1) \<Rightarrow>
          if noDownsampleMarkExists then (None, b1, markedForNoDownsample)
          else (case marshalNoDownsampleMark js
                   \<lparr>ndm_ID = bid, ndm_Version = NoDownsampleMarkVersion1, ndm_NoDownsampleTime = now,
                    ndm_Reason = reason, ndm_Details = details\<rparr> of
                  Inl err \<Rightarrow> (Some (Wrap err ''json encode no downsample mark''), b1, markedForNoDownsample)
                | Inr noDownsampleMark \<Rightarrow>
                    (case bkt_Upload b1 m noDownsampleMark of
                       (Some err, b2) \<Rightarrow> (Some (Wrap err ''upload file to bucket''), b2, markedForNoDownsample)
                     | (None, b2) \<Rightarrow> (None, b2, Suc markedForNoDownsample))))"

definition RemoveMark :: "bkt \<Rightarrow> ulid \<Rightarrow> nat \<Rightarrow> string \<Rightarrow> error option \<times> bkt \<times> nat" where
  "RemoveMark b bid removeMark markedFilename =
     (let markedFile = Join bid markedFilename in
      case bkt_Exists b markedFile of
        (Inl err, b1) \<Rightarrow> (Some (Wrap err ''check if file exists in bucket''), b1, removeMark)
      | (Inr markedFileExists, b1) \<Rightarrow>
          if \<not> markedFileExists then (None, b1, removeMark)
          else (case bkt_Delete b1 markedFile of
                  (Some err, b2) \<Rightarrow> (Some (Wrap err ''delete file from bucket''), b2, removeMark)
                | (None, b2) \<Rightarrow> (None, b2, Suc removeMark)))"

section \<open>The local filesystem\<close>

text \<open>The filesystem is a flat association list from clean paths to nodes; a directory has a
  node of its own. Reading calls are functions of the state: they fail on a missing node, and
  on a path marked \<open>nostat\<close> (for \<^verbatim>\<open>stat\<close> and \<^verbatim>\<open>lstat\<close>) or \<open>noread\<close> (for opening and
  reading). Mutating calls are numbered, and call \<open>n\<close> fails without effect when
  \<open>wfaulty n\<close>. \<open>dirsize\<close> is the size the system reports for a directory.\<close>

datatype node = RegularFile bytes | Directory

record fs =
  nodes :: "(path \<times> node) list"
  nostat :: "path \<Rightarrow> bool"
  noread :: "path \<Rightarrow> bool"
  dirsize :: "path \<Rightarrow> int"
  wfaulty :: "nat \<Rightarrow> bool"
  wcalls :: nat

record FileInfo =
  fi_Name :: string
  fi_Size :: int
  fi_IsDir :: bool

record DirEntry =
  de_Name :: string
  de_IsDir :: bool
  de_Info :: "error + FileInfo"

text \<open>\<^verbatim>\<open>filepath.Base\<close> and \<^verbatim>\<open>filepath.Dir\<close>.\<close>

definition Base :: "path \<Rightarrow> string" where
  "Base p =
     (if p = [] then ''.''
      else let q = dropWhile (\<lambda>c. c = CHR ''/'') (rev p)
           in if q = [] then ''/'' else rev (takeWhile (\<lambda>c. c \<noteq> CHR ''/'') q))"

definition Dir :: "path \<Rightarrow> path" where
  "Dir p =
     (let q = dropWhile (\<lambda>c. c = CHR ''/'') (dropWhile (\<lambda>c. c \<noteq> CHR ''/'') (rev p))
      in if q = [] then (if HasPrefix p ''/'' then ''/'' else ''.'') else rev q)"

definition os_Stat :: "fs \<Rightarrow> path \<Rightarrow> error + FileInfo" where
  "os_Stat f p =
     (case map_of (nodes f) p of
        None \<Rightarrow> Inl (NotExist p)
      | Some n \<Rightarrow>
          if nostat f p then Inl (FsFailure ''stat'' p)
          else (case n of
                  RegularFile d \<Rightarrow> Inr \<lparr>fi_Name = Base p, fi_Size = int (length d), fi_IsDir = False\<rparr>
                | Directory \<Rightarrow> Inr \<lparr>fi_Name = Base p, fi_Size = dirsize f p, fi_IsDir = True\<rparr>))"

text \<open>\<^verbatim>\<open>os.IsNotExist\<close>.\<close>

fun IsNotExist :: "error \<Rightarrow> bool" where
  "IsNotExist (NotExist p) = True"
| "IsNotExist e = False"

text \<open>The names of the direct children of a directory, in sorted order.\<close>

definition children :: "fs \<Rightarrow> path \<Rightarrow> string list" where
  "children f d =
     sort (remdups [drop (length d + 1) k. (k, n) \<leftarrow> nodes f,
              HasPrefix k (d @ DirDelim), drop (length d + 1) k \<noteq> [],
              CHR ''/'' \<notin> set (drop (length d + 1) k)])"

text \<open>\<^verbatim>\<open>os.ReadDir\<close>: the entries of a directory sorted by name; \<^verbatim>\<open>Info\<close> of an entry is
  the \<^verbatim>\<open>lstat\<close> of the child.\<close>

definition os_ReadDir :: "fs \<Rightarrow> path \<Rightarrow> error + DirEntry list" where
  "os_ReadDir f d =
     (case map_of (nodes f) d of
        None \<Rightarrow> Inl (NotExist d)
      | Some (RegularFile x) \<Rightarrow> Inl (FsFailure ''readdir'' d)
      | Some Directory \<Rightarrow>
          if noread f d then Inl (FsFailure ''readdir'' d)
          else Inr (map (\<lambda>name. \<lparr>de_Name = name,
                          de_IsDir = (map_of (nodes f) (Join d name) = Some Directory),
                          de_Info = os_Stat f (Join d name)\<rparr>) (children f d)))"

text \<open>Opening a file and reading all of it.\<close>

definition os_Open :: "fs \<Rightarrow> path \<Rightarrow> error + reader" where
  "os_Open f p =
     (case map_of (nodes f) p of
        None \<Rightarrow> Inl (NotExist p)
      | Some n \<Rightarrow>
          if noread f p then Inl (FsFailure ''open'' p)
          else (case n of
                  RegularFile d \<Rightarrow> Inr \<lparr>rc_read = Inr d, rc_close = None\<rparr>
                | Directory \<Rightarrow> Inr \<lparr>rc_read = Inl (FsFailure ''read'' p), rc_close = None\<rparr>))"

definition ReadFile :: "fs \<Rightarrow> path \<Rightarrow> error + bytes" where
  "ReadFile f p = (case os_Open f p of Inl err \<Rightarrow> Inl err | Inr rc \<Rightarrow> rc_read rc)"

text \<open>The mutating calls.\<close>

definition wcalled :: "fs \<Rightarrow> fs" where
  "wcalled f = f\<lparr>wcalls := Suc (wcalls f)\<rparr>"

definition under :: "path \<Rightarrow> path \<Rightarrow> bool" where
  "under d k = (k = d \<or> HasPrefix k (d @ DirDelim))"

definition os_Create :: "fs \<Rightarrow> path \<Rightarrow> error option \<times> fs" where
  "os_Create f p =
     (if wfaulty f (wcalls f) then (Some (FsFailure ''create'' p), wcalled f)
      else if map_of (nodes f) (Dir p) \<noteq> Some Directory then (Some (NotExist p), wcalled f)
      else if map_of (nodes f) p = Some Directory then (Some (FsFailure ''create'' p), wcalled f)
      else (None, (wcalled f)\<lparr>nodes := AList.update p (RegularFile []) (nodes f)\<rparr>))"

definition file_Write :: "fs \<Rightarrow> path \<Rightarrow> bytes \<Rightarrow> error option \<times> fs" where
  "file_Write f p d =
     (if wfaulty f (wcalls f) then (Some (FsFailure ''write'' p), wcalled f)
      else (None, (wcalled f)\<lparr>nodes := AList.update p (RegularFile d) (nodes f)\<rparr>))"

definition file_Sync :: "fs \<Rightarrow> path \<Rightarrow> error option \<times> fs" where
  "file_Sync f p =
     (if wfaulty f (wcalls f) then (Some (FsFailure ''sync'' p), wcalled f) else (None, wcalled f))"

definition file_Close :: "fs \<Rightarrow> path \<Rightarrow> error option \<times> fs" where
  "file_Close f p =
     (if wfaulty f (wcalls f) then (Some (FsFailure ''close'' p), wcalled f) else (None, wcalled f))"

definition os_RemoveAll :: "fs \<Rightarrow> path \<Rightarrow> error option \<times> fs" where
  "os_RemoveAll f p =
     (if wfaulty f (wcalls f) then (Some (FsFailure ''removeall'' p), wcalled f)
      else (None, (wcalled f)\<lparr>nodes := filter (\<lambda>(k, n). \<not> under p k) (nodes f)\<rparr>))"

definition os_Rename :: "fs \<Rightarrow> path \<Rightarrow> path \<Rightarrow> error option \<times> fs" where
  "os_Rename f from to =
     (if wfaulty f (wcalls f) then (Some (FsFailure ''rename'' from), wcalled f)
      else (case map_of (nodes f) from of
              None \<Rightarrow> (Some (NotExist from), wcalled f)
            | Some n \<Rightarrow>
                if map_of (nodes f) to = Some Directory then (Some (FsFailure ''rename'' to), wcalled f)
                else (None, (wcalled f)\<lparr>nodes :=
                        map (\<lambda>(k, n). (if under from k then to @ drop (length from) k else k, n))
                          (filter (\<lambda>(k, n). k \<noteq> to) (nodes f))\<rparr>)))"

definition fileutil_OpenDir :: "fs \<Rightarrow> path \<Rightarrow> error option \<times> fs" where
  "fileutil_OpenDir f p =
     (if wfaulty f (wcalls f) then (Some (FsFailure ''opendir'' p), wcalled f)
      else if map_of (nodes f) p \<noteq> Some Directory then (Some (NotExist p), wcalled f)
      else (None, wcalled f))"

definition fileutil_Fdatasync :: "fs \<Rightarrow> path \<Rightarrow> error option \<times> fs" where
  "fileutil_Fdatasync f p =
     (if wfaulty f (wcalls f) then (Some (FsFailure ''fdatasync'' p), wcalled f) else (None, wcalled f))"

section \<open>Metadata codec\<close>

text \<open>\<^verbatim>\<open>runutil.ExhaustCloseWithErrCapture\<close>, deferred in \<^verbatim>\<open>Read\<close>: a failure to close
  the reader is captured in the error result.\<close>

definition ExhaustCloseWithErrCapture :: "reader \<Rightarrow> error + 'a \<Rightarrow> string \<Rightarrow> error + 'a" where
  "ExhaustCloseWithErrCapture rc res msg =
     (case rc_close rc of
        None \<Rightarrow> res
      | Some cerr \<Rightarrow> (case res of Inl err \<Rightarrow> Inl (Wrap err msg) | Inr x \<Rightarrow> Inl (Wrap cerr msg)))"

definition Read :: "lib \<Rightarrow> reader \<Rightarrow> error + Meta" where
  "Read x rc =
     ExhaustCloseWithErrCapture rc
       (case rc_read rc of
          Inl err \<Rightarrow> Inl err
        | Inr d \<Rightarrow>
            (case decodeMeta x d of
               Inl err \<Rightarrow> Inl err
             | Inr m \<Rightarrow>
                 if Version m \<noteq> TSDBVersion1 then Inl (UnexpectedVersion (Version m))
                 else let version = Thanos_Version (Thanos m);
                          version = (if version = 0 then ThanosVersion1 else version)
                      in if version \<noteq> ThanosVersion1 then Inl (UnexpectedThanosVersion (Version m))
                         else if Labels (Thanos m) = None
                           then Inr (m\<lparr>Thanos := (Thanos m)\<lparr>Labels := Some []\<rparr>\<rparr>)
                         else Inr m))
       ''close meta JSON''"

definition ReadFromDir :: "lib \<Rightarrow> fs \<Rightarrow> path \<Rightarrow> error + Meta" where
  "ReadFromDir x f dir =
     (case os_Open f (Join dir MetaFilename) of
        Inl err \<Rightarrow> Inl err
      | Inr rc \<Rightarrow> Read x rc)"

text \<open>\<^verbatim>\<open>Meta.Write\<close> encodes the descriptor into a writer; here it returns the bytes.\<close>

definition Write :: "lib \<Rightarrow> Meta \<Rightarrow> error + bytes" where
  "Write x m = encodeMeta x m"

definition renameFile :: "fs \<Rightarrow> path \<Rightarrow> path \<Rightarrow> error option \<times> fs" where
  "renameFile f from to =
     (case os_RemoveAll f to of
        (Some err, f1) \<Rightarrow> (Some err, f1)
      | (None, f1) \<Rightarrow>
          (case os_Rename f1 from to of
             (Some err, f2) \<Rightarrow> (Some err, f2)
           | (None, f2) \<Rightarrow>
               (case fileutil_OpenDir f2 (Dir to) of
                  (Some err, f3) \<Rightarrow> (Some err, f3)
                | (None, f3) \<Rightarrow>
                    (case fileutil_Fdatasync f3 (Dir to) of
                       (Some err, f4) \<Rightarrow> (Some err, snd (file_Close f4 (Dir to)))
                     | (None, f4) \<Rightarrow> file_Close f4 (Dir to)))))"

definition WriteToDir :: "lib \<Rightarrow> fs \<Rightarrow> Meta \<Rightarrow> path \<Rightarrow> error option \<times> fs" where
  "WriteToDir x f m dir =
     (let path = Join dir MetaFilename;
          tmp = path @ ''.tmp''
      in case os_Create f tmp of
           (Some err, f1) \<Rightarrow> (Some err, f1)
         | (None, f1) \<Rightarrow>
             (case (case Write x m of
                      Inl err \<Rightarrow> (Some err, f1)
                    | Inr d \<Rightarrow> file_Write f1 tmp d) of
                (Some err, f2) \<Rightarrow> (Some err, snd (file_Close f2 tmp))
              | (None, f2) \<Rightarrow>
                  (case file_Sync f2 tmp of
                     (Some err, f3) \<Rightarrow> (Some err, f3)
                   | (None, f3) \<Rightarrow>
                       (case file_Close f3 tmp of
                          (Some err, f4) \<Rightarrow> (Some err, f4)
                        | (None, f4) \<Rightarrow> renameFile f4 tmp path))))"

section \<open>Descriptor-only download\<close>

definition DownloadMeta :: "lib \<Rightarrow> bkt \<Rightarrow> ulid \<Rightarrow> (error + Meta) \<times> bkt" where
  "DownloadMeta x b bid =
     (case bkt_Get b (Join bid MetaFilename) of
        (Inl err, b1) \<Rightarrow> (Inl (Wrap err ''meta.json bkt get''), b1)
      | (Inr rc, b1) \<Rightarrow>
          (case rc_read rc of
             Inl err \<Rightarrow> (Inl (Wrap err ''read meta.json''), b1)
           | Inr obj \<Rightarrow>
               (case decodeMeta x obj of
                  Inl err \<Rightarrow> (Inl (Wrap err ''unmarshal meta.json''), b1)
                | Inr m \<Rightarrow> (Inr m, b1))))"

section \<open>File stat collector\<close>

text \<open>Modelled from the spec: \<^verbatim>\<open>metadata.CalculateHash\<close> and \<^verbatim>\<open>ObjectHash.Equal\<close> are
  functions of \<^verbatim>\<open>metadata/hash.go\<close>, which is not among the sources. The hash of a local
  file is the digest of its content under the named function (``recompute its local hash'');
  it fails for a function that is not supported and when the file cannot be read. Two hashes
  match when function and value agree.\<close>

definition CalculateHash :: "lib \<Rightarrow> fs \<Rightarrow> path \<Rightarrow> HashFunc \<Rightarrow> error + ObjectHash" where
  "CalculateHash x f p hf =
     (if hf = NoneFunc then Inl (HashError ''hash function is not supported'')
      else (case digest x hf of
              None \<Rightarrow> Inl (HashError ''hash function is not supported'')
            | Some h \<Rightarrow>
                (case ReadFile f p of
                   Inl err \<Rightarrow> Inl (HashError ''reading file'')
                 | Inr d \<Rightarrow> Inr \<lparr>Func = hf, Value = h d\<rparr>)))"

definition Equal :: "ObjectHash \<Rightarrow> ObjectHash \<Rightarrow> bool" where
  "Equal oh other = (Func oh = Func other \<and> Value oh = Value other)"

text \<open>The loop of \<^verbatim>\<open>GatherFileStats\<close> over the entries of the chunks directory; \<open>res\<close> is
  the manifest collected so far.\<close>

fun gather_chunks :: "lib \<Rightarrow> fs \<Rightarrow> path \<Rightarrow> HashFunc \<Rightarrow> DirEntry list \<Rightarrow> File list \<Rightarrow> error + File list" where
  "gather_chunks x fsys blockDir hf [] res = Inr res"
| "gather_chunks x fsys blockDir hf (f # files) res =
     (case de_Info f of
        Inl err \<Rightarrow> Inl (Wrap err ''getting file info'')
      | Inr fi \<Rightarrow>
          (let mf = \<lparr>RelPath = Join ChunksDirname (de_Name f), SizeBytes = fi_Size fi, Hash = None\<rparr>
           in if hf \<noteq> NoneFunc \<and> \<not> de_IsDir f
              then (case CalculateHash x fsys (Join (Join blockDir ChunksDirname) (de_Name f)) hf of
                      Inl err \<Rightarrow> Inl (Wrap err ''calculate hash'')
                    | Inr h \<Rightarrow> gather_chunks x fsys blockDir hf files (res @ [mf\<lparr>Hash := Some h\<rparr>]))
              else gather_chunks x fsys blockDir hf files (res @ [mf])))"

text \<open>\<^verbatim>\<open>sort.Slice\<close> orders by \<^verbatim>\<open>strings.Compare\<close> of the relative paths, the bytewise
  lexicographic order of strings. It is not a stable sort; the relative paths collected here are
  pairwise distinct, so the sorted manifest is determined.\<close>

definition GatherFileStats :: "lib \<Rightarrow> fs \<Rightarrow> path \<Rightarrow> HashFunc \<Rightarrow> error + File list" where
  "GatherFileStats x fsys blockDir hf =
     (case os_ReadDir fsys (Join blockDir ChunksDirname) of
        Inl err \<Rightarrow> Inl (Wrap err ''read dir'')
      | Inr files \<Rightarrow>
          (case gather_chunks x fsys blockDir hf files [] of
             Inl err \<Rightarrow> Inl err
           | Inr res \<Rightarrow>
               (case os_Stat fsys (Join blockDir IndexFilename) of
                  Inl err \<Rightarrow> Inl (Wrap err ''stat'')
                | Inr indexFile \<Rightarrow>
                    (let mf = \<lparr>RelPath = fi_Name indexFile, SizeBytes = fi_Size indexFile, Hash = None\<rparr>
                     in case (if hf \<noteq> NoneFunc
                              then (case CalculateHash x fsys (Join blockDir IndexFilename) hf of
                                      Inl err \<Rightarrow> Inl (Wrap err ''calculate hash'')
                                    | Inr h \<Rightarrow> Inr (mf\<lparr>Hash := Some h\<rparr>))
                              else Inr mf) of
                          Inl err \<Rightarrow> Inl err
                        | Inr mf \<Rightarrow>
                            (case os_Stat fsys (Join blockDir MetaFilename) of
                               Inl err \<Rightarrow> Inl (Wrap err ''stat'')
                             | Inr metaFile \<Rightarrow>
                                 Inr (sort_key RelPath
                                   (res @ [mf] @
                                    [\<lparr>RelPath = fi_Name metaFile, SizeBytes = 0, Hash = None\<rparr>])))))))"

section \<open>Uploader\<close>

text \<open>\<^verbatim>\<open>objstore.UploadFile\<close> and \<^verbatim>\<open>objstore.UploadDir\<close> belong to the store client
  library. A file is opened and its content uploaded in one call of the client; a directory is
  walked in lexical order and every regular file below it is uploaded under the same relative
  path, stopping at the first failure.\<close>

definition UploadFile :: "bkt \<Rightarrow> fs \<Rightarrow> path \<Rightarrow> path \<Rightarrow> error option \<times> bkt" where
  "UploadFile b f src dst =
     (case ReadFile f src of
        Inl err \<Rightarrow> (Some (Wrap err ''open file''), b)
      | Inr d \<Rightarrow>
          (case bkt_Upload b dst d of
             (Some err, b1) \<Rightarrow> (Some (Wrap err ''upload file''), b1)
           | (None, b1) \<Rightarrow> (None, b1)))"

definition is_file :: "fs \<Rightarrow> path \<Rightarrow> bool" where
  "is_file f p = (case map_of (nodes f) p of Some (RegularFile d) \<Rightarrow> True | _ \<Rightarrow> False)"

definition walk_files :: "fs \<Rightarrow> path \<Rightarrow> path list" where
  "walk_files f d =
     sort (remdups [drop (length d + 1) k. (k, n) \<leftarrow> nodes f,
              HasPrefix k (d @ DirDelim), is_file f k])"

fun upload_each :: "fs \<Rightarrow> path \<Rightarrow> path \<Rightarrow> path list \<Rightarrow> bkt \<Rightarrow> error option \<times> bkt" where
  "upload_each f srcdir dstdir [] b = (None, b)"
| "upload_each f srcdir dstdir (rel # rels) b =
     (case UploadFile b f (Join srcdir rel) (Join dstdir rel) of
        (Some err, b1) \<Rightarrow> (Some err, b1)
      | (None, b1) \<Rightarrow> upload_each f srcdir dstdir rels b1)"

definition UploadDir :: "bkt \<Rightarrow> fs \<Rightarrow> path \<Rightarrow> path \<Rightarrow> error option \<times> bkt" where
  "UploadDir b f srcdir dstdir =
     (case os_Stat f srcdir of
        Inl err \<Rightarrow> (Some (Wrap err ''stat''), b)
      | Inr df \<Rightarrow>
          if \<not> fi_IsDir df then (Some (Errorf ''is not a directory''), b)
          else upload_each f srcdir dstdir (walk_files f srcdir) b)"

text \<open>\<open>now\<close> is the reading of \<^verbatim>\<open>time.Now().UTC()\<close>. The upload options only tune the
  transfer and are not modelled.\<close>

definition upload :: "lib \<Rightarrow> int \<Rightarrow> bkt \<Rightarrow> fs \<Rightarrow> path \<Rightarrow> HashFunc \<Rightarrow> bool \<Rightarrow> error option \<times> bkt" where
  "upload x now bkt f bdir hf checkExternalLabels =
     (case os_Stat f bdir of
        Inl err \<Rightarrow> (Some err, bkt)
      | Inr df \<Rightarrow>
          if \<not> fi_IsDir df then (Some (Errorf ''is not a directory''), bkt)
          else (case ulidParse x (fi_Name df) of
            Inl err \<Rightarrow> (Some (Wrap err ''not a block dir''), bkt)
          | Inr bid \<Rightarrow>
              (case ReadFromDir x f bdir of
                 Inl err \<Rightarrow> (Some (Wrap err ''read meta''), bkt)
               | Inr meta \<Rightarrow>
                   if checkExternalLabels \<and> len_map (Labels (Thanos meta)) = 0
                   then (Some (Errorf ''empty external labels are not allowed for Thanos block.''), bkt)
                   else (case GatherFileStats x f bdir hf of
                     Inl err \<Rightarrow> (Some (Wrap err ''gather meta file stats''), bkt)
                   | Inr files \<Rightarrow>
                       (let meta = meta\<lparr>Thanos := (Thanos meta)\<lparr>Files := files\<rparr>\<rparr>
                        in case UploadDir bkt f (Join bdir ChunksDirname) (Join bid ChunksDirname) of
                             (Some err, b1) \<Rightarrow> (Some (Wrap err ''upload chunks''), b1)
                           | (None, b1) \<Rightarrow>
                               (case UploadFile b1 f (Join bdir IndexFilename) (Join bid IndexFilename) of
                                  (Some err, b2) \<Rightarrow> (Some (Wrap err ''upload index''), b2)
                                | (None, b2) \<Rightarrow>
                                    (let meta = meta\<lparr>Thanos := (Thanos meta)\<lparr>UploadTime := now\<rparr>\<rparr>
                                     in case Write x meta of
                                          Inl err \<Rightarrow> (Some (Wrap err ''encode meta file''), b2)
                                        | Inr metaEncoded \<Rightarrow>
                                            (case bkt_Upload b2 (Join bid MetaFilename) metaEncoded of
                                               (Some err, b3) \<Rightarrow> (Some (Wrap err ''upload meta file''), b3)
                                             | (None, b3) \<Rightarrow> (None, b3)))))))))"

definition Upload :: "lib \<Rightarrow> int \<Rightarrow> bkt \<Rightarrow> fs \<Rightarrow> path \<Rightarrow> HashFunc \<Rightarrow> error option \<times> bkt" where
  "Upload x now bkt f bdir hf = upload x now bkt f bdir hf True"

definition UploadPromBlock :: "lib \<Rightarrow> int \<Rightarrow> bkt \<Rightarrow> fs \<Rightarrow> path \<Rightarrow> HashFunc \<Rightarrow> error option \<times> bkt" where
  "UploadPromBlock x now bkt f bdir hf = upload x now bkt f bdir hf False"

section \<open>Deleter\<close>

text \<open>\<^verbatim>\<open>Bucket.Iter\<close> lists the entries directly below a directory in sorted order, by their
  full names; an entry with objects below it is named with a trailing delimiter. The listing is
  taken when the call starts, then the callback runs on each name until one fails.
  The callback can recurse, so its result is optional: \<open>None\<close> is a recursion that did not
  return.\<close>

definition dirPrefix :: "path \<Rightarrow> path" where
  "dirPrefix dir = (if dir = [] \<or> HasSuffix dir DirDelim then dir else dir @ DirDelim)"







text \<open>The deletions that a run issued, in the order of the trace: the names of its
  \<^verbatim>\<open>Delete\<close> calls, failed ones included.\<close>

fun deletions :: "(store_op \<times> bool) list \<Rightarrow> path list" where
  "deletions [] = []"
| "deletions ((OpDelete name, ok) # evs) = name # deletions evs"
| "deletions (e # evs) = deletions evs"

section \<open>Downloader\<close>

text \<open>\<^verbatim>\<open>os.MkdirAll\<close> creates a directory and the missing directories above it; it fails
  when the path or a path above it is a regular file. \<^verbatim>\<open>os.Mkdir\<close> creates one directory.\<close>

definition ancestors :: "path \<Rightarrow> path list" where
  "ancestors p = [take i p. i \<leftarrow> [1..<length p], p ! i = CHR ''/''] @ [p]"

definition os_MkdirAll :: "fs \<Rightarrow> path \<Rightarrow> error option \<times> fs" where
  "os_MkdirAll f p =
     (if wfaulty f (wcalls f) then (Some (FsFailure ''mkdir'' p), wcalled f)
      else if list_ex (is_file f) (ancestors p) then (Some (FsFailure ''mkdir'' p), wcalled f)
      else (None, (wcalled f)\<lparr>nodes :=
              foldl (\<lambda>ns q. if map_of ns q = None then ns @ [(q, Directory)] else ns)
                (nodes f) (ancestors p)\<rparr>))"

definition os_Mkdir :: "fs \<Rightarrow> path \<Rightarrow> error option \<times> fs" where
  "os_Mkdir f p =
     (if wfaulty f (wcalls f) then (Some (FsFailure ''mkdir'' p), wcalled f)
      else if map_of (nodes f) p \<noteq> None then (Some (FsFailure ''mkdir'' p), wcalled f)
      else if map_of (nodes f) (Dir p) \<noteq> Some Directory then (Some (NotExist p), wcalled f)
      else (None, (wcalled f)\<lparr>nodes := nodes f @ [(p, Directory)]\<rparr>))"

text \<open>\<^verbatim>\<open>objstore.DownloadFile\<close> and \<^verbatim>\<open>objstore.DownloadDir\<close> belong to the store client
  library. A file is fetched with one \<^verbatim>\<open>Get\<close> and written to the destination, which is
  removed again when the copy fails. A directory is listed, and every object below it whose path
  relative to \<open>originalSrc\<close> is not among the ignored paths is downloaded to the same relative
  path, stopping at the first failure.\<close>

definition DownloadFile :: "bkt \<Rightarrow> fs \<Rightarrow> path \<Rightarrow> path \<Rightarrow> error option \<times> bkt \<times> fs" where
  "DownloadFile b f src dst =
     (case bkt_Get b src of
        (Inl err, b1) \<Rightarrow> (Some (Wrap err ''get file''), b1, f)
      | (Inr rc, b1) \<Rightarrow>
          (case os_Create f dst of
             (Some err, f1) \<Rightarrow> (Some (Wrap err ''create file''), b1, f1)
           | (None, f1) \<Rightarrow>
               (case (case rc_read rc of
                        Inl err \<Rightarrow> (Some err, f1)
                      | Inr d \<Rightarrow> file_Write f1 dst d) of
                  (Some err, f2) \<Rightarrow> (Some (Wrap err ''copy object to file''), b1, snd (os_RemoveAll f2 dst))
                | (None, f2) \<Rightarrow> (None, b1, f2))))"

definition TrimPrefix :: "string \<Rightarrow> string \<Rightarrow> string" where
  "TrimPrefix s pre = (if HasPrefix s pre then drop (length pre) s else s)"

fun download_each ::
  "path \<Rightarrow> path \<Rightarrow> string list \<Rightarrow> path list \<Rightarrow> bkt \<Rightarrow> fs \<Rightarrow> error option \<times> bkt \<times> fs" where
  "download_each originalSrc dst ignoredPaths [] b f = (None, b, f)"
| "download_each originalSrc dst ignoredPaths (name # names) b f =
     (let rel = TrimPrefix name (originalSrc @ DirDelim)
      in if rel \<in> set ignoredPaths then download_each originalSrc dst ignoredPaths names b f
         else (case os_MkdirAll f (Dir (Join dst rel)) of
                 (Some err, f1) \<Rightarrow> (Some (Wrap err ''create dir''), b, f1)
               | (None, f1) \<Rightarrow>
                   (case DownloadFile b f1 name (Join dst rel) of
                      (Some err, b1, f2) \<Rightarrow> (Some err, b1, f2)
                    | (None, b1, f2) \<Rightarrow> download_each originalSrc dst ignoredPaths names b1 f2)))"

definition DownloadDir ::
  "bkt \<Rightarrow> fs \<Rightarrow> path \<Rightarrow> path \<Rightarrow> path \<Rightarrow> string list \<Rightarrow> error option \<times> bkt \<times> fs" where
  "DownloadDir b f originalSrc src dst ignoredPaths =
     (case os_MkdirAll f dst of
        (Some err, f1) \<Rightarrow> (Some (Wrap err ''create dir''), b, f1)
      | (None, f1) \<Rightarrow>
          if faulty b (calls b)
          then (Some (StoreFailure (OpIter src)), called b (OpIter src) False, f1)
          else download_each originalSrc dst ignoredPaths
                 (sort (remdups [k. (k, v) \<leftarrow> objects b, HasPrefix k (dirPrefix src), k \<noteq> dirPrefix src]))
                 (called b (OpIter src) True) f1)"

text \<open>The loop of \<^verbatim>\<open>Download\<close> over the manifest of the fetched descriptor. It has no
  error exit: an entry whose local hash cannot be calculated is passed over.\<close>

fun ignored_paths :: "lib \<Rightarrow> fs \<Rightarrow> path \<Rightarrow> File list \<Rightarrow> string list \<Rightarrow> string list" where
  "ignored_paths x f dst [] ignoredPaths = ignoredPaths"
| "ignored_paths x f dst (fl # fls) ignoredPaths =
     (case Hash fl of
        None \<Rightarrow> ignored_paths x f dst fls ignoredPaths
      | Some h \<Rightarrow>
          if Func h = NoneFunc \<or> RelPath fl = [] then ignored_paths x f dst fls ignoredPaths
          else (case CalculateHash x f (Join dst (RelPath fl)) (Func h) of
                  Inl err \<Rightarrow> ignored_paths x f dst fls ignoredPaths
                | Inr actualHash \<Rightarrow>
                    if Equal h actualHash
                    then ignored_paths x f dst fls (ignoredPaths @ [RelPath fl])
                    else ignored_paths x f dst fls ignoredPaths))"

text \<open>The download options only tune the transfer and are not modelled; the ignored paths are
  passed to \<open>DownloadDir\<close> directly.\<close>

definition Download :: "lib \<Rightarrow> bkt \<Rightarrow> fs \<Rightarrow> ulid \<Rightarrow> path \<Rightarrow> error option \<times> bkt \<times> fs" where
  "Download x bucket f bid dst =
     (case os_MkdirAll f dst of
        (Some err, f1) \<Rightarrow> (Some (Wrap err ''create dir''), bucket, f1)
      | (None, f1) \<Rightarrow>
          (case DownloadFile bucket f1 (Join bid MetaFilename) (Join dst MetaFilename) of
             (Some err, b1, f2) \<Rightarrow> (Some err, b1, f2)
           | (None, b1, f2) \<Rightarrow>
               (case ReadFromDir x f2 dst of
                  Inl err \<Rightarrow> (Some (Wrap err ''reading meta''), b1, f2)
                | Inr m \<Rightarrow>
                    (let ignoredPaths = ignored_paths x f2 dst (Files (Thanos m)) [MetaFilename]
                     in case DownloadDir b1 f2 bid bid dst ignoredPaths of
                          (Some err, b2, f3) \<Rightarrow> (Some err, b2, f3)
                        | (None, b2, f3) \<Rightarrow>
                            (let chunksDir = Join dst ChunksDirname
                             in case os_Stat f3 chunksDir of
                                  Inl err \<Rightarrow>
                                    if IsNotExist err
                                    then (case os_Mkdir f3 chunksDir of (e, f4) \<Rightarrow> (e, b2, f4))
                                    else (Some (Wrap err ''stat''), b2, f3)
                                | Inr fi \<Rightarrow> (None, b2, f3))))))"

section \<open>Example inputs\<close>

text \<open>Concrete parameters and states on which the operations are evaluated: a toy decoder that
  knows a few documents by name, block ids of one character, and a digest that reverses the
  content.\<close>

definition example_meta :: "int \<Rightarrow> int \<Rightarrow> (string \<times> string) list option \<Rightarrow> File list \<Rightarrow> Meta" where
  "example_meta v tv ls fls =
     \<lparr>ULID = ''B'', MinTime = 0, MaxTime = 1, Version = v,
      Thanos = \<lparr>Thanos_Version = tv, Labels = ls, Downsample_Resolution = 0, Source = [],
                SegmentFiles = [], Files = fls, UploadTime = 0\<rparr>\<rparr>"

definition example_lib :: lib where
  "example_lib =
     \<lparr>decodeMeta = (\<lambda>d.
        if d = ''legacy'' then Inr (example_meta 1 0 None [])
        else if d = ''labelled'' then Inr (example_meta 1 1 (Some [(''tenant'', ''a'')]) [])
        else if d = ''unlabelled'' then Inr (example_meta 1 1 (Some []) [])
        else if d = ''future'' then Inr (example_meta 2 3 None [])
        else if d = ''hashed'' then Inr (example_meta 1 1 (Some [(''tenant'', ''a'')])
          [\<lparr>RelPath = ''chunks/000001'', SizeBytes = 2, Hash = Some \<lparr>Func = ''SHA256'', Value = ''ba''\<rparr>\<rparr>,
           \<lparr>RelPath = ''index'', SizeBytes = 3, Hash = Some \<lparr>Func = ''SHA256'', Value = ''xdi''\<rparr>\<rparr>,
           \<lparr>RelPath = ''meta.json'', SizeBytes = 0, Hash = None\<rparr>])
        else Inl (JSONError d)),
      encodeMeta = (\<lambda>m. if Files (Thanos m) = [] then Inr ''labelled'' else Inr ''hashed''),
      marshalDeletionMark = (\<lambda>m. Inr (dm_Details m)),
      marshalNoCompactMark = (\<lambda>m. Inr (ncm_Details m)),
      marshalNoDownsampleMark = (\<lambda>m. Inr (ndm_Details m)),
      ulidParse = (\<lambda>s. if length s = 1 then Inr s else Inl (InvalidULID s)),
      digest = (\<lambda>hf. if hf = ''SHA256'' then Some rev else None)\<rparr>"

definition marked_bkt :: bkt where
  "marked_bkt =
     \<lparr>objects = [(''B/deletion-mark.json'', ''first''), (''B/no-compact-mark.json'', ''first''),
                 (''B/no-downsample-mark.json'', ''first'')],
      faulty = (\<lambda>n. False), badbody = (\<lambda>p. False), calls = 0, trace = []\<rparr>"

definition empty_bkt :: bkt where
  "empty_bkt = \<lparr>objects = [], faulty = (\<lambda>n. False), badbody = (\<lambda>p. False), calls = 0, trace = []\<rparr>"

definition marked_once :: bkt where
  "marked_once =
     \<lparr>objects = [(''B/deletion-mark.json'', ''first'')], faulty = (\<lambda>n. False),
      badbody = (\<lambda>p. False), calls = 2,
      trace = [(OpExists ''B/deletion-mark.json'', True), (OpUpload ''B/deletion-mark.json'', True)]\<rparr>"

definition stream :: "bytes \<Rightarrow> reader" where
  "stream d = \<lparr>rc_read = Inr d, rc_close = None\<rparr>"

definition future_bkt :: bkt where
  "future_bkt =
     \<lparr>objects = [(''B/meta.json'', ''future'')], faulty = (\<lambda>n. False), badbody = (\<lambda>p. False),
      calls = 0, trace = []\<rparr>"

definition block_fs :: "bytes \<Rightarrow> fs" where
  "block_fs meta =
     \<lparr>nodes = [(''d'', Directory), (''d/B'', Directory), (''d/B/meta.json'', RegularFile meta),
               (''d/B/index'', RegularFile ''idx''), (''d/B/chunks'', Directory),
               (''d/B/chunks/000001'', RegularFile ''ab'')],
      nostat = (\<lambda>p. False), noread = (\<lambda>p. False), dirsize = (\<lambda>p. 4096),
      wfaulty = (\<lambda>n. False), wcalls = 0\<rparr>"

definition failing_rename_fs :: fs where
  "failing_rename_fs = (block_fs ''unlabelled'')\<lparr>wfaulty := (\<lambda>n. n = 5)\<rparr>"

definition subdir_fs :: fs where
  "subdir_fs =
     \<lparr>nodes = [(''d'', Directory), (''d/B'', Directory), (''d/B/meta.json'', RegularFile ''labelled''),
               (''d/B/index'', RegularFile ''idx''), (''d/B/chunks'', Directory),
               (''d/B/chunks/000001'', RegularFile ''ab''), (''d/B/chunks/sub'', Directory)],
      nostat = (\<lambda>p. False), noread = (\<lambda>p. False), dirsize = (\<lambda>p. 4096),
      wfaulty = (\<lambda>n. False), wcalls = 0\<rparr>"

definition stored_block :: bkt where
  "stored_block =
     \<lparr>objects = [(''B/chunks/000001'', ''ab''), (''B/index'', ''idx''), (''B/meta.json'', ''hashed'')],
      faulty = (\<lambda>n. False), badbody = (\<lambda>p. False), calls = 0, trace = []\<rparr>"

definition fresh_fs :: fs where
  "fresh_fs =
     \<lparr>nodes = [(''e'', Directory)],
      nostat = (\<lambda>p. False), noread = (\<lambda>p. False), dirsize = (\<lambda>p. 4096),
      wfaulty = (\<lambda>n. False), wcalls = 0\<rparr>"

definition stale_fs :: fs where
  "stale_fs =
     \<lparr>nodes = [(''e'', Directory), (''e/B'', Directory), (''e/B/meta.json'', RegularFile ''legacy''),
               (''e/B/index'', RegularFile ''old''), (''e/B/chunks'', Directory),
               (''e/B/chunks/000001'', RegularFile ''ab'')],
      nostat = (\<lambda>p. False), noread = (\<lambda>p. False), dirsize = (\<lambda>p. 4096),
      wfaulty = (\<lambda>n. False), wcalls = 0\<rparr>"





section \<open>Properties of the store client\<close>

lemma objects_called [simp]: "objects (called b op ok) = objects b"
  by (simp add: called_def)

lemma trace_called [simp]: "trace (called b op ok) = trace b @ [(op, ok)]"
  by (simp add: called_def)

lemma calls_called [simp]: "calls (called b op ok) = Suc (calls b)"
  by (simp add: called_def)

lemma faulty_called [simp]: "faulty (called b op ok) = faulty b"
  by (simp add: called_def)

lemma badbody_called [simp]: "badbody (called b op ok) = badbody b"
  by (simp add: called_def)

lemma update_absent_neq: "map_of al k = None \<Longrightarrow> AList.update k v al \<noteq> al"
  by (metis option.distinct(1) update_Some_unfold)

lemma delete_present_neq: "map_of al k \<noteq> None \<Longrightarrow> AList.delete k al \<noteq> al"
  by (metis delete_conv' fun_upd_same)

lemma MarkForDeletion_success_present:
  "MarkForDeletion x now b bid details c = (None, b1, c1) \<Longrightarrow>
   map_of (objects b1) (Join bid DeletionMarkFilename) \<noteq> None"
  by (auto simp: MarkForDeletion_def bkt_Exists_def bkt_Upload_def Let_def update_conv'
      split: if_splits sum.splits prod.splits option.splits)

lemma bkt_Exists_cases:
  assumes "bkt_Exists b name = (Inr e, b1)"
  shows "e = (map_of (objects b) name \<noteq> None)" and "objects b1 = objects b"
    and "trace b1 = trace b @ [(OpExists name, True)]"
  using assms by (auto simp: bkt_Exists_def split: if_splits)

text \<open>Claim C6. Setting a mark is idempotent. When the existence check of \<^verbatim>\<open>MarkForDeletion\<close>,
  \<^verbatim>\<open>MarkForNoCompact\<close> or \<^verbatim>\<open>MarkForNoDownsample\<close> finds the mark object in the store, the
  operation returns success, issues no upload (the existence check is its only call of the
  client) and leaves the objects and the counter as they were. So after a successful
  \<^verbatim>\<open>MarkForDeletion\<close> the existence check of a second one, with other details and another
  time, finds the mark, and the second call leaves the stored mark of the first unchanged.
  Symmetrically, \<^verbatim>\<open>RemoveMark\<close> of a mark that the existence check finds absent issues no
  deletion and returns success.\<close>

theorem marks_idempotent:
  "(bkt_Exists b (Join bid DeletionMarkFilename) = (Inr True, b') \<longrightarrow>
      MarkForDeletion x now b bid details c = (None, b', c) \<and> objects b' = objects b \<and>
      trace b' = trace b @ [(OpExists (Join bid DeletionMarkFilename), True)])
 \<and> (bkt_Exists b (Join bid NoCompactMarkFilename) = (Inr True, b') \<longrightarrow>
      MarkForNoCompact x now b bid reason details c = (None, b', c) \<and> objects b' = objects b \<and>
      trace b' = trace b @ [(OpExists (Join bid NoCompactMarkFilename), True)])
 \<and> (bkt_Exists b (Join bid NoDownsampleMarkFilename) = (Inr True, b') \<longrightarrow>
      MarkForNoDownsample x now b bid reason details c = (None, b', c) \<and> objects b' = objects b \<and>
      trace b' = trace b @ [(OpExists (Join bid NoDownsampleMarkFilename), True)])
 \<and> (bkt_Exists b (Join bid markedFilename) = (Inr False, b') \<longrightarrow>
      RemoveMark b bid c markedFilename = (None, b', c) \<and> objects b' = objects b \<and>
      trace b' = trace b @ [(OpExists (Join bid markedFilename), True)])
 \<and> (MarkForDeletion x now b bid details c = (None, b', c') \<and>
      bkt_Exists b' (Join bid DeletionMarkFilename) = (Inr e, b'') \<longrightarrow>
      e \<and> MarkForDeletion x now2 b' bid details2 c' = (None, b'', c') \<and> objects b'' = objects b')"
proof (intro conjI impI)
  assume a: "bkt_Exists b (Join bid DeletionMarkFilename) = (Inr True, b')"
  then show "MarkForDeletion x now b bid details c = (None, b', c)"
    by (simp add: MarkForDeletion_def)
  from bkt_Exists_cases [OF a]
  show "objects b' = objects b" "trace b' = trace b @ [(OpExists (Join bid DeletionMarkFilename), True)]"
    by simp_all
next
  assume a: "bkt_Exists b (Join bid NoCompactMarkFilename) = (Inr True, b')"
  then show "MarkForNoCompact x now b bid reason details c = (None, b', c)"
    by (simp add: MarkForNoCompact_def)
  from bkt_Exists_cases [OF a]
  show "objects b' = objects b" "trace b' = trace b @ [(OpExists (Join bid NoCompactMarkFilename), True)]"
    by simp_all
next
  assume a: "bkt_Exists b (Join bid NoDownsampleMarkFilename) = (Inr True, b')"
  then show "MarkForNoDownsample x now b bid reason details c = (None, b', c)"
    by (simp add: MarkForNoDownsample_def)
  from bkt_Exists_cases [OF a]
  show "objects b' = objects b" "trace b' = trace b @ [(OpExists (Join bid NoDownsampleMarkFilename), True)]"
    by simp_all
next
  assume a: "bkt_Exists b (Join bid markedFilename) = (Inr False, b')"
  then show "RemoveMark b bid c markedFilename = (None, b', c)"
    by (simp add: RemoveMark_def)
  from bkt_Exists_cases [OF a]
  show "objects b' = objects b" "trace b' = trace b @ [(OpExists (Join bid markedFilename), True)]"
    by simp_all
next
  assume a: "MarkForDeletion x now b bid details c = (None, b', c') \<and>
      bkt_Exists b' (Join bid DeletionMarkFilename) = (Inr e, b'')"
  then have p: "map_of (objects b') (Join bid DeletionMarkFilename) \<noteq> None"
    by (auto dest: MarkForDeletion_success_present)
  from a have ex: "bkt_Exists b' (Join bid DeletionMarkFilename) = (Inr e, b'')" by simp
  from bkt_Exists_cases [OF ex] p show "e" "objects b'' = objects b'" by simp_all
  with ex show "MarkForDeletion x now2 b' bid details2 c' = (None, b'', c')"
    by (simp add: MarkForDeletion_def)
qed

lemmas ex_defs = example_lib_def marked_bkt_def Join_def DirDelim_def DeletionMarkFilename_def
  NoCompactMarkFilename_def NoDownsampleMarkFilename_def

theorem marks_idempotent_witness:
  "bkt_Exists marked_bkt (Join ''B'' DeletionMarkFilename)
     = (Inr True, called marked_bkt (OpExists (Join ''B'' DeletionMarkFilename)) True)
   \<and> MarkForDeletion example_lib 20 marked_bkt ''B'' ''second'' 1
     = (None, called marked_bkt (OpExists (Join ''B'' DeletionMarkFilename)) True, 1)
   \<and> objects (called marked_bkt (OpExists (Join ''B'' DeletionMarkFilename)) True)
     = [(''B/deletion-mark.json'', ''first''), (''B/no-compact-mark.json'', ''first''),
        (''B/no-downsample-mark.json'', ''first'')]
   \<and> bkt_Exists marked_bkt (Join ''B'' ''other-mark.json'')
     = (Inr False, called marked_bkt (OpExists (Join ''B'' ''other-mark.json'')) True)
   \<and> RemoveMark marked_bkt ''B'' 1 ''other-mark.json''
     = (None, called marked_bkt (OpExists (Join ''B'' ''other-mark.json'')) True, 1)"
proof -
  have h1: "bkt_Exists marked_bkt (Join ''B'' DeletionMarkFilename)
     = (Inr True, called marked_bkt (OpExists (Join ''B'' DeletionMarkFilename)) True)"
    by (simp add: bkt_Exists_def ex_defs)
  have h2: "bkt_Exists marked_bkt (Join ''B'' ''other-mark.json'')
     = (Inr False, called marked_bkt (OpExists (Join ''B'' ''other-mark.json'')) True)"
    by (simp add: bkt_Exists_def ex_defs)
  have o: "objects marked_bkt = [(''B/deletion-mark.json'', ''first''), (''B/no-compact-mark.json'', ''first''),
        (''B/no-downsample-mark.json'', ''first'')]"
    by (simp add: marked_bkt_def)
  from marks_idempotent [where b = marked_bkt and bid = "''B''" and x = example_lib and now = 20
      and details = "''second''" and c = 1
      and b' = "called marked_bkt (OpExists (Join ''B'' DeletionMarkFilename)) True"] h1
  have g1: "MarkForDeletion example_lib 20 marked_bkt ''B'' ''second'' 1
     = (None, called marked_bkt (OpExists (Join ''B'' DeletionMarkFilename)) True, 1)"
    and g2: "objects (called marked_bkt (OpExists (Join ''B'' DeletionMarkFilename)) True) = objects marked_bkt"
    by simp_all
  from marks_idempotent [where b = marked_bkt and bid = "''B''" and c = 1
      and markedFilename = "''other-mark.json''"
      and b' = "called marked_bkt (OpExists (Join ''B'' ''other-mark.json'')) True"] h2
  have g3: "RemoveMark marked_bkt ''B'' 1 ''other-mark.json''
     = (None, called marked_bkt (OpExists (Join ''B'' ''other-mark.json'')) True, 1)"
    by simp
  from h1 h2 g1 g2 g3 o show ?thesis by simp
qed

lemma MarkForDeletion_counter:
  assumes "MarkForDeletion x now b bid details c = (r, b', c')"
  shows "(c' = Suc c \<and> r = None \<and> objects b' \<noteq> objects b \<and>
          trace b' = trace b @ [(OpExists (Join bid DeletionMarkFilename), True),
                                (OpUpload (Join bid DeletionMarkFilename), True)])
       \<or> (c' = c \<and> objects b' = objects b \<and>
          (\<exists>evs. trace b' = trace b @ evs \<and> (\<forall>p. (OpUpload p, True) \<notin> set evs)))"
  using assms
  by (auto simp: MarkForDeletion_def bkt_Exists_def bkt_Upload_def Let_def update_absent_neq
      split: if_splits sum.splits prod.splits option.splits)

lemma MarkForNoCompact_counter:
  assumes "MarkForNoCompact x now b bid reason details c = (r, b', c')"
  shows "(c' = Suc c \<and> r = None \<and> objects b' \<noteq> objects b \<and>
          trace b' = trace b @ [(OpExists (Join bid NoCompactMarkFilename), True),
                                (OpUpload (Join bid NoCompactMarkFilename), True)])
       \<or> (c' = c \<and> objects b' = objects b \<and>
          (\<exists>evs. trace b' = trace b @ evs \<and> (\<forall>p. (OpUpload p, True) \<notin> set evs)))"
  using assms
  by (auto simp: MarkForNoCompact_def bkt_Exists_def bkt_Upload_def Let_def update_absent_neq
      split: if_splits sum.splits prod.splits option.splits)

lemma MarkForNoDownsample_counter:
  assumes "MarkForNoDownsample x now b bid reason details c = (r, b', c')"
  shows "(c' = Suc c \<and> r = None \<and> objects b' \<noteq> objects b \<and>
          trace b' = trace b @ [(OpExists (Join bid NoDownsampleMarkFilename), True),
                                (OpUpload (Join bid NoDownsampleMarkFilename), True)])
       \<or> (c' = c \<and> objects b' = objects b \<and>
          (\<exists>evs. trace b' = trace b @ evs \<and> (\<forall>p. (OpUpload p, True) \<notin> set evs)))"
  using assms
  by (auto simp: MarkForNoDownsample_def bkt_Exists_def bkt_Upload_def Let_def update_absent_neq
      split: if_splits sum.splits prod.splits option.splits)

lemma RemoveMark_counter:
  assumes "RemoveMark b bid c markedFilename = (r, b', c')"
  shows "(c' = Suc c \<and> r = None \<and> objects b' \<noteq> objects b \<and>
          trace b' = trace b @ [(OpExists (Join bid markedFilename), True),
                                (OpDelete (Join bid markedFilename), True)])
       \<or> (c' = c \<and> objects b' = objects b \<and>
          (\<exists>evs. trace b' = trace b @ evs \<and> (\<forall>p. (OpDelete p, True) \<notin> set evs)))"
  using assms
  by (auto simp: RemoveMark_def bkt_Exists_def bkt_Delete_def Let_def delete_present_neq
      split: if_splits sum.splits prod.splits option.splits)

text \<open>Claim C10. The counter passed to a mark operation is incremented exactly when the
  operation changed the store. Each of the three setters either increments the counter, returns
  success, has changed the objects and has issued the existence check and one successful upload
  of the mark; or it leaves counter and objects as they were and has issued no successful
  upload (the mark existed, or a call failed). \<^verbatim>\<open>RemoveMark\<close> likewise either increments
  the counter after one successful deletion of the mark, or leaves counter and objects as they
  were and has issued no successful deletion.\<close>

theorem mark_counter_exact:
  "(MarkForDeletion x now b bid details c = (r, b', c') \<longrightarrow>
      (c' = Suc c \<and> r = None \<and> objects b' \<noteq> objects b \<and>
       trace b' = trace b @ [(OpExists (Join bid DeletionMarkFilename), True),
                             (OpUpload (Join bid DeletionMarkFilename), True)])
    \<or> (c' = c \<and> objects b' = objects b \<and>
       (\<exists>evs. trace b' = trace b @ evs \<and> (\<forall>p. (OpUpload p, True) \<notin> set evs))))
 \<and> (MarkForNoCompact x now b bid reason details c = (r, b', c') \<longrightarrow>
      (c' = Suc c \<and> r = None \<and> objects b' \<noteq> objects b \<and>
       trace b' = trace b @ [(OpExists (Join bid NoCompactMarkFilename), True),
                             (OpUpload (Join bid NoCompactMarkFilename), True)])
    \<or> (c' = c \<and> objects b' = objects b \<and>
       (\<exists>evs. trace b' = trace b @ evs \<and> (\<forall>p. (OpUpload p, True) \<notin> set evs))))
 \<and> (MarkForNoDownsample x now b bid reason details c = (r, b', c') \<longrightarrow>
      (c' = Suc c \<and> r = None \<and> objects b' \<noteq> objects b \<and>
       trace b' = trace b @ [(OpExists (Join bid NoDownsampleMarkFilename), True),
                             (OpUpload (Join bid NoDownsampleMarkFilename), True)])
    \<or> (c' = c \<and> objects b' = objects b \<and>
       (\<exists>evs. trace b' = trace b @ evs \<and> (\<forall>p. (OpUpload p, True) \<notin> set evs))))
 \<and> (RemoveMark b bid c markedFilename = (r, b', c') \<longrightarrow>
      (c' = Suc c \<and> r = None \<and> objects b' \<noteq> objects b \<and>
       trace b' = trace b @ [(OpExists (Join bid markedFilename), True),
                             (OpDelete (Join bid markedFilename), True)])
    \<or> (c' = c \<and> objects b' = objects b \<and>
       (\<exists>evs. trace b' = trace b @ evs \<and> (\<forall>p. (OpDelete p, True) \<notin> set evs))))"
  using MarkForDeletion_counter [of x now b bid details c r b' c']
    MarkForNoCompact_counter [of x now b bid reason details c r b' c']
    MarkForNoDownsample_counter [of x now b bid reason details c r b' c']
    RemoveMark_counter [of b bid c markedFilename r b' c']
  by blast

theorem mark_counter_exact_witness:
  "MarkForDeletion example_lib 10 empty_bkt ''B'' ''first'' 4 = (None, marked_once, 5)
   \<and> objects marked_once \<noteq> objects empty_bkt
   \<and> RemoveMark empty_bkt ''B'' 4 DeletionMarkFilename
       = (None, called empty_bkt (OpExists (Join ''B'' DeletionMarkFilename)) True, 4)
   \<and> (\<exists>evs. trace (called empty_bkt (OpExists (Join ''B'' DeletionMarkFilename)) True)
               = trace empty_bkt @ evs \<and> (\<forall>p. (OpDelete p, True) \<notin> set evs))"
proof -
  have h1: "MarkForDeletion example_lib 10 empty_bkt ''B'' ''first'' 4 = (None, marked_once, 5)"
    by (simp add: MarkForDeletion_def bkt_Exists_def bkt_Upload_def called_def empty_bkt_def
        Let_def marked_once_def ex_defs)
  have h2: "RemoveMark empty_bkt ''B'' 4 DeletionMarkFilename
       = (None, called empty_bkt (OpExists (Join ''B'' DeletionMarkFilename)) True, 4)"
    by (simp add: RemoveMark_def bkt_Exists_def empty_bkt_def ex_defs Let_def)
  from mark_counter_exact [where x = example_lib and now = 10 and b = empty_bkt and bid = "''B''"
      and details = "''first''" and c = 4 and r = None and b' = marked_once and c' = 5] h1
  have g1: "objects marked_once \<noteq> objects empty_bkt" by simp
  from mark_counter_exact [where b = empty_bkt and bid = "''B''" and c = 4 and r = None
      and markedFilename = DeletionMarkFilename and c' = 4
      and b' = "called empty_bkt (OpExists (Join ''B'' DeletionMarkFilename)) True"] h2
  have g2: "\<exists>evs. trace (called empty_bkt (OpExists (Join ''B'' DeletionMarkFilename)) True)
               = trace empty_bkt @ evs \<and> (\<forall>p. (OpDelete p, True) \<notin> set evs)"
    by simp
  from h1 h2 g1 g2 show ?thesis by simp
qed

section \<open>Properties of the metadata codec\<close>

lemma capture_Inl: "\<exists>e'. ExhaustCloseWithErrCapture rc (Inl e) msg = Inl e'"
  by (simp add: ExhaustCloseWithErrCapture_def split: option.splits)

lemma capture_Inl_neq [simp]: "ExhaustCloseWithErrCapture rc (Inl e) msg \<noteq> Inr v"
  by (simp add: ExhaustCloseWithErrCapture_def split: option.splits)

lemma capture_Inr:
  "ExhaustCloseWithErrCapture rc (Inr v) msg = Inr v' \<longleftrightarrow> rc_close rc = None \<and> v' = v"
  by (auto simp add: ExhaustCloseWithErrCapture_def split: option.splits)

lemma capture_closed: "rc_close rc = None \<Longrightarrow> ExhaustCloseWithErrCapture rc res msg = res"
  by (simp add: ExhaustCloseWithErrCapture_def)

lemma Read_decoded:
  assumes "rc_read rc = Inr d" and "decodeMeta x d = Inr m"
  shows "Read x rc =
     ExhaustCloseWithErrCapture rc
       (if Version m \<noteq> 1 then Inl (UnexpectedVersion (Version m))
        else if Thanos_Version (Thanos m) \<noteq> 0 \<and> Thanos_Version (Thanos m) \<noteq> 1
          then Inl (UnexpectedThanosVersion (Version m))
        else if Labels (Thanos m) = None then Inr (m\<lparr>Thanos := (Thanos m)\<lparr>Labels := Some []\<rparr>\<rparr>)
        else Inr m)
       ''close meta JSON''"
  using assms by (simp add: Read_def Let_def TSDBVersion1_def ThanosVersion1_def)

lemma Read_read_error: "rc_read rc = Inl e \<Longrightarrow> \<exists>e'. Read x rc = Inl e'"
  by (simp add: Read_def capture_Inl)

lemma Read_decode_error:
  "rc_read rc = Inr d \<Longrightarrow> decodeMeta x d = Inl e \<Longrightarrow> \<exists>e'. Read x rc = Inl e'"
  by (simp add: Read_def capture_Inl)

lemma Read_labels: "Read x rc = Inr m' \<Longrightarrow> Labels (Thanos m') \<noteq> None"
proof (cases "rc_read rc")
  case (Inl e)
  assume "Read x rc = Inr m'"
  with Read_read_error [OF Inl, of x] show ?thesis by auto
next
  case (Inr d)
  assume r: "Read x rc = Inr m'"
  show ?thesis
  proof (cases "decodeMeta x d")
    case (Inl e)
    with Read_decode_error [OF Inr Inl] r show ?thesis by auto
  next
    case dec: (Inr m)
    from r show ?thesis
      unfolding Read_decoded [OF Inr dec]
      by (cases "Labels (Thanos m)") (auto simp: capture_Inr split: if_splits)
  qed
qed


lemma Read_bad_version:
  assumes "rc_read rc = Inr d" and "decodeMeta x d = Inr m"
    and "Version m \<noteq> 1 \<or> (Thanos_Version (Thanos m) \<noteq> 0 \<and> Thanos_Version (Thanos m) \<noteq> 1)"
  shows "\<exists>e. Read x rc = Inl e"
  using assms(3) unfolding Read_decoded [OF assms(1,2)]
  by (auto simp: capture_Inl)

lemma Read_legacy:
  assumes "rc_read rc = Inr d" and "rc_close rc = None" and "decodeMeta x d = Inr m"
    and "Version m = 1" and "Thanos_Version (Thanos m) = 0 \<or> Thanos_Version (Thanos m) = 1"
  shows "Read x rc =
           Inr (if Labels (Thanos m) = None then m\<lparr>Thanos := (Thanos m)\<lparr>Labels := Some []\<rparr>\<rparr> else m)"
  using assms(4,5) unfolding Read_decoded [OF assms(1,3)] capture_closed [OF assms(2)]
  by auto

text \<open>Claim C4. Decoding a descriptor with \<^verbatim>\<open>Read\<close>, for every input stream:
  \<^item> it returns an error when the document decodes to a top-level version other than 1;
  \<^item> it returns an error when the version of the Thanos section, with 0 (an absent field)
    replaced by 1, is not 1;
  \<^item> a document with top-level version 1 and no version in the Thanos section decodes
    successfully (the stream closing without error);
  \<^item> every descriptor it returns has an allocated labels map: the nil map of a document
    without labels has been replaced by the empty map.\<close>

theorem Read_version_gating:
  "(rc_read rc = Inr d \<and> decodeMeta x d = Inr m \<and> Version m \<noteq> 1 \<longrightarrow> (\<exists>e. Read x rc = Inl e))
 \<and> (rc_read rc = Inr d \<and> decodeMeta x d = Inr m \<and>
      (if Thanos_Version (Thanos m) = 0 then 1 else Thanos_Version (Thanos m)) \<noteq> 1 \<longrightarrow>
      (\<exists>e. Read x rc = Inl e))
 \<and> (rc_read rc = Inr d \<and> rc_close rc = None \<and> decodeMeta x d = Inr m \<and> Version m = 1 \<and>
      Thanos_Version (Thanos m) = 0 \<longrightarrow>
      Read x rc = Inr (if Labels (Thanos m) = None
                       then m\<lparr>Thanos := (Thanos m)\<lparr>Labels := Some []\<rparr>\<rparr> else m))
 \<and> (Read x rc = Inr m' \<longrightarrow> Labels (Thanos m') \<noteq> None)"
proof (intro conjI impI)
  assume "rc_read rc = Inr d \<and> decodeMeta x d = Inr m \<and> Version m \<noteq> 1"
  then show "\<exists>e. Read x rc = Inl e"
    using Read_bad_version [of rc d x m] by blast
next
  assume a: "rc_read rc = Inr d \<and> decodeMeta x d = Inr m \<and>
      (if Thanos_Version (Thanos m) = 0 then 1 else Thanos_Version (Thanos m)) \<noteq> 1"
  then have "Thanos_Version (Thanos m) \<noteq> 0 \<and> Thanos_Version (Thanos m) \<noteq> 1"
    by (simp split: if_splits)
  with a show "\<exists>e. Read x rc = Inl e"
    using Read_bad_version [of rc d x m] by blast
next
  assume "rc_read rc = Inr d \<and> rc_close rc = None \<and> decodeMeta x d = Inr m \<and> Version m = 1 \<and>
      Thanos_Version (Thanos m) = 0"
  then show "Read x rc = Inr (if Labels (Thanos m) = None
                       then m\<lparr>Thanos := (Thanos m)\<lparr>Labels := Some []\<rparr>\<rparr> else m)"
    using Read_legacy [of rc d x m] by blast
next
  assume "Read x rc = Inr m'"
  then show "Labels (Thanos m') \<noteq> None"
    by (rule Read_labels)
qed

theorem Read_version_gating_witness:
  "decodeMeta example_lib ''future'' = Inr (example_meta 2 3 None [])
   \<and> (\<exists>e. Read example_lib (stream ''future'') = Inl e)
   \<and> decodeMeta example_lib ''legacy'' = Inr (example_meta 1 0 None [])
   \<and> Read example_lib (stream ''legacy'') = Inr (example_meta 1 0 (Some []) [])
   \<and> Labels (Thanos (example_meta 1 0 (Some []) [])) \<noteq> None"
proof -
  have d1: "decodeMeta example_lib ''future'' = Inr (example_meta 2 3 None [])"
    and d2: "decodeMeta example_lib ''legacy'' = Inr (example_meta 1 0 None [])"
    by (simp_all add: example_lib_def)
  have v: "Version (example_meta 2 3 None []) \<noteq> 1" "Version (example_meta 1 0 None []) = 1"
    "Thanos_Version (Thanos (example_meta 1 0 None [])) = 0"
    "Labels (Thanos (example_meta 1 0 None [])) = None"
    "(example_meta 1 0 None [])\<lparr>Thanos := (Thanos (example_meta 1 0 None []))\<lparr>Labels := Some []\<rparr>\<rparr>
       = example_meta 1 0 (Some []) []"
    by (simp_all add: example_meta_def)
  have s: "rc_read (stream ''future'') = Inr ''future''" "rc_read (stream ''legacy'') = Inr ''legacy''"
    "rc_close (stream ''legacy'') = None"
    by (simp_all add: stream_def)
  have g1: "\<exists>e. Read example_lib (stream ''future'') = Inl e"
    using Read_version_gating [where rc = "stream ''future''" and d = "''future''"
        and x = example_lib and m = "example_meta 2 3 None []"] d1 v(1) s(1) by blast
  have g2: "Read example_lib (stream ''legacy'') = Inr (example_meta 1 0 (Some []) [])"
    using Read_version_gating [where rc = "stream ''legacy''" and d = "''legacy''"
        and x = example_lib and m = "example_meta 1 0 None []"] d2 v s by simp
  have g3: "Labels (Thanos (example_meta 1 0 (Some []) [])) \<noteq> None"
    using Read_version_gating [where rc = "stream ''legacy''" and x = example_lib
        and m' = "example_meta 1 0 (Some []) []"] g2 by blast
  from d1 d2 g1 g2 g3 show ?thesis by blast
qed

lemma DownloadMeta_ok:
  assumes "\<not> faulty b (calls b)" and "map_of (objects b) (Join bid MetaFilename) = Some obj"
    and "\<not> badbody b (Join bid MetaFilename)" and "decodeMeta x obj = Inr m"
  shows "DownloadMeta x b bid = (Inr m, called b (OpGet (Join bid MetaFilename)) True)"
  using assms by (simp add: DownloadMeta_def bkt_Get_def)

text \<open>Claim C9. \<^verbatim>\<open>DownloadMeta\<close> returns what the JSON decoder gives for the stored object,
  without the checks of \<^verbatim>\<open>Read\<close>: when the object is fetched and decodes to \<open>m\<close>, the
  result is \<open>m\<close> itself, whatever its versions and labels are. On the same bytes \<^verbatim>\<open>Read\<close>
  fails when a version is unsupported, and replaces nil labels by the empty map.\<close>

theorem DownloadMeta_no_validation:
  assumes "\<not> faulty b (calls b)" and "map_of (objects b) (Join bid MetaFilename) = Some obj"
    and "\<not> badbody b (Join bid MetaFilename)" and "decodeMeta x obj = Inr m"
  shows "DownloadMeta x b bid = (Inr m, called b (OpGet (Join bid MetaFilename)) True)
    \<and> (Version m \<noteq> 1 \<or> (Thanos_Version (Thanos m) \<noteq> 0 \<and> Thanos_Version (Thanos m) \<noteq> 1) \<longrightarrow>
         (\<exists>e. Read x (stream obj) = Inl e))
    \<and> (Labels (Thanos m) = None \<and> Version m = 1 \<and>
        (Thanos_Version (Thanos m) = 0 \<or> Thanos_Version (Thanos m) = 1) \<longrightarrow>
         Read x (stream obj) = Inr (m\<lparr>Thanos := (Thanos m)\<lparr>Labels := Some []\<rparr>\<rparr>))"
proof (intro conjI impI)
  show "DownloadMeta x b bid = (Inr m, called b (OpGet (Join bid MetaFilename)) True)"
    using assms by (rule DownloadMeta_ok)
next
  have s: "rc_read (stream obj) = Inr obj" "rc_close (stream obj) = None"
    by (simp_all add: stream_def)
  {
    assume "Version m \<noteq> 1 \<or> (Thanos_Version (Thanos m) \<noteq> 0 \<and> Thanos_Version (Thanos m) \<noteq> 1)"
    then show "\<exists>e. Read x (stream obj) = Inl e"
      using Read_bad_version [OF s(1) assms(4)] by blast
  next
    assume "Labels (Thanos m) = None \<and> Version m = 1 \<and>
        (Thanos_Version (Thanos m) = 0 \<or> Thanos_Version (Thanos m) = 1)"
    then show "Read x (stream obj) = Inr (m\<lparr>Thanos := (Thanos m)\<lparr>Labels := Some []\<rparr>\<rparr>)"
      using Read_legacy [OF s(1) s(2) assms(4)] by simp
  }
qed

theorem DownloadMeta_no_validation_witness:
  "\<not> faulty future_bkt (calls future_bkt)
   \<and> map_of (objects future_bkt) (Join ''B'' MetaFilename) = Some ''future''
   \<and> \<not> badbody future_bkt (Join ''B'' MetaFilename)
   \<and> decodeMeta example_lib ''future'' = Inr (example_meta 2 3 None [])
   \<and> Version (example_meta 2 3 None []) = 2
   \<and> Thanos_Version (Thanos (example_meta 2 3 None [])) = 3
   \<and> Labels (Thanos (example_meta 2 3 None [])) = None
   \<and> fst (DownloadMeta example_lib future_bkt ''B'') = Inr (example_meta 2 3 None [])
   \<and> (\<exists>e. Read example_lib (stream ''future'') = Inl e)"
proof -
  have h: "\<not> faulty future_bkt (calls future_bkt)"
    "map_of (objects future_bkt) (Join ''B'' MetaFilename) = Some ''future''"
    "\<not> badbody future_bkt (Join ''B'' MetaFilename)"
    "decodeMeta example_lib ''future'' = Inr (example_meta 2 3 None [])"
    by (simp_all add: future_bkt_def Join_def DirDelim_def MetaFilename_def example_lib_def)
  have v: "Version (example_meta 2 3 None []) = 2"
    "Thanos_Version (Thanos (example_meta 2 3 None [])) = 3"
    "Labels (Thanos (example_meta 2 3 None [])) = None"
    by (simp_all add: example_meta_def)
  from DownloadMeta_no_validation [OF h] v
  have "fst (DownloadMeta example_lib future_bkt ''B'') = Inr (example_meta 2 3 None [])
      \<and> (\<exists>e. Read example_lib (stream ''future'') = Inl e)"
    by simp
  with h v show ?thesis by blast
qed

section \<open>Properties of the uploader\<close>

lemma bkt_Upload_cases:
  assumes "bkt_Upload b p d = (r, b')"
  shows "(r = None \<and> trace b' = trace b @ [(OpUpload p, True)] \<and>
            objects b' = AList.update p d (objects b))
       \<or> (r \<noteq> None \<and> trace b' = trace b @ [(OpUpload p, False)] \<and> objects b' = objects b)"
  using assms by (auto simp: bkt_Upload_def split: if_splits)

lemma UploadFile_cases:
  assumes "UploadFile b f src dst = (r, b')"
  shows "(r = None \<and> trace b' = trace b @ [(OpUpload dst, True)] \<and>
            (\<exists>d. ReadFile f src = Inr d \<and> objects b' = AList.update dst d (objects b)))
       \<or> (r \<noteq> None \<and> objects b' = objects b \<and>
            (trace b' = trace b \<or> trace b' = trace b @ [(OpUpload dst, False)]))"
proof (cases "ReadFile f src")
  case (Inl e)
  with assms show ?thesis by (auto simp: UploadFile_def)
next
  case (Inr d)
  obtain r1 b1 where u: "bkt_Upload b dst d = (r1, b1)" by (cases "bkt_Upload b dst d")
  from assms Inr u have "b' = b1" "r = None \<longleftrightarrow> r1 = None"
    by (auto simp: UploadFile_def split: option.splits)
  with bkt_Upload_cases [OF u] Inr show ?thesis by auto
qed

lemma upload_each_cases:
  assumes "upload_each f srcdir dstdir rels b = (r, b')"
  shows "(r = None \<and> trace b' = trace b @ map (\<lambda>rel. (OpUpload (Join dstdir rel), True)) rels \<and>
            (\<forall>p. map_of (objects b) p \<noteq> None \<longrightarrow> map_of (objects b') p \<noteq> None) \<and>
            (\<forall>rel \<in> set rels. map_of (objects b') (Join dstdir rel) \<noteq> None))
       \<or> (r \<noteq> None \<and>
            (\<exists>done rel rest. rels = done @ rel # rest \<and>
               (trace b' = trace b @ map (\<lambda>rel. (OpUpload (Join dstdir rel), True)) done \<or>
                trace b' = trace b @ map (\<lambda>rel. (OpUpload (Join dstdir rel), True)) done
                             @ [(OpUpload (Join dstdir rel), False)])))"
  using assms
proof (induction rels arbitrary: b)
  case Nil
  then show ?case by simp
next
  case (Cons rel rels)
  obtain r1 b1 where u: "UploadFile b f (Join srcdir rel) (Join dstdir rel) = (r1, b1)"
    by (cases "UploadFile b f (Join srcdir rel) (Join dstdir rel)")
  show ?case
  proof (cases r1)
    case (Some e)
    with Cons.prems u have rb: "r = Some e" "b' = b1" by simp_all
    from UploadFile_cases [OF u] Some
    have "trace b1 = trace b \<or> trace b1 = trace b @ [(OpUpload (Join dstdir rel), False)]"
      by simp
    then have "\<exists>done rel' rest. rel # rels = done @ rel' # rest \<and>
               (trace b1 = trace b @ map (\<lambda>rel. (OpUpload (Join dstdir rel), True)) done \<or>
                trace b1 = trace b @ map (\<lambda>rel. (OpUpload (Join dstdir rel), True)) done
                             @ [(OpUpload (Join dstdir rel'), False)])"
      by (intro exI [of _ "[]"] exI [of _ rel] exI [of _ rels]) simp
    with rb show ?thesis by simp
  next
    case None
    with Cons.prems u have rest: "upload_each f srcdir dstdir rels b1 = (r, b')" by simp
    from UploadFile_cases [OF u] None obtain d
      where t1: "trace b1 = trace b @ [(OpUpload (Join dstdir rel), True)]"
        and o1: "objects b1 = AList.update (Join dstdir rel) d (objects b)"
      by auto
    from Cons.IH [OF rest] show ?thesis
    proof
      assume ok: "r = None \<and> trace b' = trace b1 @ map (\<lambda>rel. (OpUpload (Join dstdir rel), True)) rels \<and>
            (\<forall>p. map_of (objects b1) p \<noteq> None \<longrightarrow> map_of (objects b') p \<noteq> None) \<and>
            (\<forall>rel \<in> set rels. map_of (objects b') (Join dstdir rel) \<noteq> None)"
      have "map_of (objects b1) (Join dstdir rel) \<noteq> None"
        by (simp add: o1 update_conv')
      moreover have "\<forall>p. map_of (objects b) p \<noteq> None \<longrightarrow> map_of (objects b1) p \<noteq> None"
        by (simp add: o1 update_conv')
      ultimately show ?thesis using ok t1 by auto
    next
      assume "r \<noteq> None \<and>
            (\<exists>done rel rest. rels = done @ rel # rest \<and>
               (trace b' = trace b1 @ map (\<lambda>rel. (OpUpload (Join dstdir rel), True)) done \<or>
                trace b' = trace b1 @ map (\<lambda>rel. (OpUpload (Join dstdir rel), True)) done
                             @ [(OpUpload (Join dstdir rel), False)]))"
      then obtain dn rl rest where r: "r \<noteq> None" and s: "rels = dn @ rl # rest"
        and t: "trace b' = trace b1 @ map (\<lambda>rel. (OpUpload (Join dstdir rel), True)) dn \<or>
                trace b' = trace b1 @ map (\<lambda>rel. (OpUpload (Join dstdir rel), True)) dn
                             @ [(OpUpload (Join dstdir rl), False)]"
        by blast
      have "rel # rels = (rel # dn) @ rl # rest" using s by simp
      moreover from t t1
      have "trace b' = trace b @ map (\<lambda>rel. (OpUpload (Join dstdir rel), True)) (rel # dn) \<or>
                trace b' = trace b @ map (\<lambda>rel. (OpUpload (Join dstdir rel), True)) (rel # dn)
                             @ [(OpUpload (Join dstdir rl), False)]"
        by auto
      ultimately show ?thesis using r by blast
    qed
  qed
qed


lemma upload_each_frame:
  assumes "upload_each f srcdir dstdir rels b = (r, b')"
    and "\<forall>rel \<in> set rels. p \<noteq> Join dstdir rel"
  shows "map_of (objects b') p = map_of (objects b) p"
  using assms
proof (induction rels arbitrary: b)
  case Nil
  then show ?case by simp
next
  case (Cons rel rels)
  obtain r1 b1 where u: "UploadFile b f (Join srcdir rel) (Join dstdir rel) = (r1, b1)"
    by (cases "UploadFile b f (Join srcdir rel) (Join dstdir rel)")
  from UploadFile_cases [OF u] Cons.prems(2)
  have o1: "map_of (objects b1) p = map_of (objects b) p"
    by (auto simp: update_conv')
  show ?case
  proof (cases r1)
    case (Some e)
    with Cons.prems u have "b' = b1" by simp
    with o1 show ?thesis by simp
  next
    case None
    with Cons.prems u have "upload_each f srcdir dstdir rels b1 = (r, b')" by simp
    from Cons.IH [OF this] Cons.prems(2) o1 show ?thesis by simp
  qed
qed

lemma chunk_path_neq_meta: "Join (Join bid ChunksDirname) rel \<noteq> Join bid MetaFilename"
  by (simp add: Join_def ChunksDirname_def MetaFilename_def DirDelim_def)

lemma index_path_neq_meta: "Join bid IndexFilename \<noteq> Join bid MetaFilename"
  by (simp add: Join_def IndexFilename_def MetaFilename_def DirDelim_def)

lemma meta_neq_chunk_path: "Join bid MetaFilename \<noteq> Join (Join bid ChunksDirname) rel"
  by (simp add: Join_def ChunksDirname_def MetaFilename_def DirDelim_def)

lemma meta_neq_index_path: "Join bid MetaFilename \<noteq> Join bid IndexFilename"
  by (simp add: Join_def IndexFilename_def MetaFilename_def DirDelim_def)

lemmas content_path_neq_meta =
  chunk_path_neq_meta index_path_neq_meta meta_neq_chunk_path meta_neq_index_path

lemma UploadDir_eq:
  assumes "UploadDir b f srcdir dstdir = (r, b')"
  shows "(r \<noteq> None \<and> b' = b) \<or> upload_each f srcdir dstdir (walk_files f srcdir) b = (r, b')"
  using assms by (auto simp: UploadDir_def split: sum.splits if_splits)

lemma upload_cases:
  assumes "os_Stat f bdir = Inr df" and "ulidParse x (fi_Name df) = Inr bid"
    and "upload x now bkt f bdir hf chk = (r, b')"
  shows "(r \<noteq> None \<and> b' = bkt)
       \<or> (\<exists>e. UploadDir bkt f (Join bdir ChunksDirname) (Join bid ChunksDirname) = (Some e, b') \<and> r \<noteq> None)
       \<or> (\<exists>b1 e. UploadDir bkt f (Join bdir ChunksDirname) (Join bid ChunksDirname) = (None, b1) \<and>
             UploadFile b1 f (Join bdir IndexFilename) (Join bid IndexFilename) = (Some e, b') \<and> r \<noteq> None)
       \<or> (\<exists>b1. UploadDir bkt f (Join bdir ChunksDirname) (Join bid ChunksDirname) = (None, b1) \<and>
             UploadFile b1 f (Join bdir IndexFilename) (Join bid IndexFilename) = (None, b') \<and> r \<noteq> None)
       \<or> (\<exists>b1 b2 d r'. UploadDir bkt f (Join bdir ChunksDirname) (Join bid ChunksDirname) = (None, b1) \<and>
             UploadFile b1 f (Join bdir IndexFilename) (Join bid IndexFilename) = (None, b2) \<and>
             bkt_Upload b2 (Join bid MetaFilename) d = (r', b') \<and> (r = None \<longleftrightarrow> r' = None))"
  using assms
  by (auto simp: upload_def Let_def split: sum.splits if_splits prod.splits option.splits)


lemma upload_shape:
  assumes st: "os_Stat f bdir = Inr df" and id: "ulidParse x (fi_Name df) = Inr bid"
    and up: "upload x now bkt f bdir hf chk = (r, b')"
  shows "(r \<noteq> None \<and>
          (\<exists>evs. trace b' = trace bkt @ evs \<and> (\<forall>ok. (OpUpload (Join bid MetaFilename), ok) \<notin> set evs)) \<and>
          map_of (objects b') (Join bid MetaFilename) = map_of (objects bkt) (Join bid MetaFilename))
       \<or> (\<exists>ok. trace b' = trace bkt @
                    map (\<lambda>rel. (OpUpload (Join (Join bid ChunksDirname) rel), True))
                      (walk_files f (Join bdir ChunksDirname))
                  @ [(OpUpload (Join bid IndexFilename), True), (OpUpload (Join bid MetaFilename), ok)] \<and>
          (r = None \<longleftrightarrow> ok) \<and>
          (\<forall>rel \<in> set (walk_files f (Join bdir ChunksDirname)).
              map_of (objects b') (Join (Join bid ChunksDirname) rel) \<noteq> None) \<and>
          map_of (objects b') (Join bid IndexFilename) \<noteq> None \<and>
          (\<not> ok \<longrightarrow> map_of (objects b') (Join bid MetaFilename)
                       = map_of (objects bkt) (Join bid MetaFilename)))"
  (is "?A \<or> ?B")
proof -
  let ?meta = "Join bid MetaFilename"
  let ?idx = "Join bid IndexFilename"
  let ?rels = "walk_files f (Join bdir ChunksDirname)"
  let ?ev = "\<lambda>rel. (OpUpload (Join (Join bid ChunksDirname) rel), True)"
  have nometa: "(OpUpload ?meta, ok) \<notin> set (map ?ev rels)" for rels ok
    by (induction rels) (simp_all add: meta_neq_chunk_path)
  have frame_dir: "map_of (objects b1) ?meta = map_of (objects bkt) ?meta"
    if "UploadDir bkt f (Join bdir ChunksDirname) (Join bid ChunksDirname) = (r1, b1)" for r1 b1
  proof -
    from UploadDir_eq [OF that] show ?thesis
    proof
      assume "r1 \<noteq> None \<and> b1 = bkt"
      then show ?thesis by simp
    next
      assume "upload_each f (Join bdir ChunksDirname) (Join bid ChunksDirname) ?rels bkt = (r1, b1)"
      then show ?thesis
        by (rule upload_each_frame) (simp add: meta_neq_chunk_path)
    qed
  qed
  have trace_dir_fail: "\<exists>evs. trace b1 = trace bkt @ evs \<and> (\<forall>ok. (OpUpload ?meta, ok) \<notin> set evs)"
    if u: "UploadDir bkt f (Join bdir ChunksDirname) (Join bid ChunksDirname) = (Some e, b1)" for e b1
  proof -
    from UploadDir_eq [OF u] show ?thesis
    proof
      assume "Some e \<noteq> None \<and> b1 = bkt"
      then show ?thesis by (intro exI [of _ "[]"]) simp
    next
      assume "upload_each f (Join bdir ChunksDirname) (Join bid ChunksDirname) ?rels bkt = (Some e, b1)"
      from upload_each_cases [OF this] obtain dn rl
        where "trace b1 = trace bkt @ map ?ev dn \<or>
               trace b1 = trace bkt @ map ?ev dn @ [(OpUpload (Join (Join bid ChunksDirname) rl), False)]"
        by auto
      then show ?thesis
      proof
        assume "trace b1 = trace bkt @ map ?ev dn"
        then show ?thesis
          by (intro exI [of _ "map ?ev dn"]) (simp add: nometa del: set_map)
      next
        assume "trace b1 = trace bkt @ map ?ev dn @ [(OpUpload (Join (Join bid ChunksDirname) rl), False)]"
        then show ?thesis
          by (intro exI [of _ "map ?ev dn @ [(OpUpload (Join (Join bid ChunksDirname) rl), False)]"])
            (simp add: nometa meta_neq_chunk_path del: set_map)
      qed
    qed
  qed
  have dir_ok: "trace b1 = trace bkt @ map ?ev ?rels \<and>
        (\<forall>p. map_of (objects bkt) p \<noteq> None \<longrightarrow> map_of (objects b1) p \<noteq> None) \<and>
        (\<forall>rel \<in> set ?rels. map_of (objects b1) (Join (Join bid ChunksDirname) rel) \<noteq> None)"
    if u: "UploadDir bkt f (Join bdir ChunksDirname) (Join bid ChunksDirname) = (None, b1)" for b1
  proof -
    from UploadDir_eq [OF u]
    have "upload_each f (Join bdir ChunksDirname) (Join bid ChunksDirname) ?rels bkt = (None, b1)"
      by simp
    from upload_each_cases [OF this] show ?thesis by simp
  qed
  from upload_cases [OF st id up]
  consider (a) "r \<noteq> None" "b' = bkt"
    | (b) e where "UploadDir bkt f (Join bdir ChunksDirname) (Join bid ChunksDirname) = (Some e, b')" "r \<noteq> None"
    | (c) b1 e where "UploadDir bkt f (Join bdir ChunksDirname) (Join bid ChunksDirname) = (None, b1)"
        "UploadFile b1 f (Join bdir IndexFilename) ?idx = (Some e, b')" "r \<noteq> None"
    | (d) b1 where "UploadDir bkt f (Join bdir ChunksDirname) (Join bid ChunksDirname) = (None, b1)"
        "UploadFile b1 f (Join bdir IndexFilename) ?idx = (None, b')" "r \<noteq> None"
    | (e) b1 b2 d r' where "UploadDir bkt f (Join bdir ChunksDirname) (Join bid ChunksDirname) = (None, b1)"
        "UploadFile b1 f (Join bdir IndexFilename) ?idx = (None, b2)"
        "bkt_Upload b2 ?meta d = (r', b')" "r = None \<longleftrightarrow> r' = None"
    by blast
  then show ?thesis
  proof cases
    case a
    have "\<exists>evs. trace b' = trace bkt @ evs \<and> (\<forall>ok. (OpUpload ?meta, ok) \<notin> set evs)"
      using a(2) by (intro exI [of _ "[]"]) simp
    with a have ?A by simp
    then show ?thesis ..
  next
    case b
    from trace_dir_fail [OF b(1)] frame_dir [OF b(1)] b(2) have ?A by simp
    then show ?thesis ..
  next
    case c
    from UploadFile_cases [OF c(2)]
    have o: "objects b' = objects b1"
      and t: "trace b' = trace b1 \<or> trace b' = trace b1 @ [(OpUpload ?idx, False)]"
      by auto
    have "\<exists>evs. trace b' = trace bkt @ evs \<and> (\<forall>ok. (OpUpload ?meta, ok) \<notin> set evs)"
      using t
    proof
      assume "trace b' = trace b1"
      with dir_ok [OF c(1)] show ?thesis
        by (intro exI [of _ "map ?ev ?rels"]) (simp add: nometa del: set_map)
    next
      assume "trace b' = trace b1 @ [(OpUpload ?idx, False)]"
      with dir_ok [OF c(1)] show ?thesis
        by (intro exI [of _ "map ?ev ?rels @ [(OpUpload ?idx, False)]"])
          (simp add: nometa meta_neq_index_path del: set_map)
    qed
    with frame_dir [OF c(1)] o c(3) have ?A by simp
    then show ?thesis ..
  next
    case d
    from UploadFile_cases [OF d(2)] obtain dat
      where o: "objects b' = AList.update ?idx dat (objects b1)"
        and t: "trace b' = trace b1 @ [(OpUpload ?idx, True)]"
      by auto
    have "\<exists>evs. trace b' = trace bkt @ evs \<and> (\<forall>ok. (OpUpload ?meta, ok) \<notin> set evs)"
      using t dir_ok [OF d(1)]
      by (intro exI [of _ "map ?ev ?rels @ [(OpUpload ?idx, True)]"])
        (simp add: nometa meta_neq_index_path del: set_map)
    moreover have "map_of (objects b') ?meta = map_of (objects bkt) ?meta"
      using frame_dir [OF d(1)] o by (simp add: update_conv' meta_neq_index_path)
    ultimately have ?A using d(3) by simp
    then show ?thesis ..
  next
    case e
    from UploadFile_cases [OF e(2)] obtain dat
      where o2: "objects b2 = AList.update ?idx dat (objects b1)"
        and t2: "trace b2 = trace b1 @ [(OpUpload ?idx, True)]"
      by auto
    have m2: "map_of (objects b2) ?meta = map_of (objects bkt) ?meta"
      using frame_dir [OF e(1)] o2 by (simp add: update_conv' meta_neq_index_path)
    have c2: "\<forall>rel \<in> set ?rels. map_of (objects b2) (Join (Join bid ChunksDirname) rel) \<noteq> None"
      using dir_ok [OF e(1)] o2 by (simp add: update_conv')
    have i2: "map_of (objects b2) ?idx \<noteq> None"
      using o2 by (simp add: update_conv')
    from bkt_Upload_cases [OF e(3)]
    have t': "trace b' = trace b2 @ [(OpUpload ?meta, r' = None)]"
      and o': "objects b' = (if r' = None then AList.update ?meta d (objects b2) else objects b2)"
      by auto
    have 1: "trace b' = trace bkt @ map ?ev ?rels @ [(OpUpload ?idx, True), (OpUpload ?meta, r' = None)]"
      using t' t2 dir_ok [OF e(1)] by simp
    have 2: "\<forall>rel \<in> set ?rels. map_of (objects b') (Join (Join bid ChunksDirname) rel) \<noteq> None"
      using c2 o' by (simp add: update_conv')
    have 3: "map_of (objects b') ?idx \<noteq> None"
      using i2 o' by (simp add: update_conv')
    have 4: "\<not> (r' = None) \<longrightarrow> map_of (objects b') ?meta = map_of (objects bkt) ?meta"
      using m2 o' by simp
    have ?B
      using 1 2 3 4 e(4) by (intro exI [of _ "r' = None"]) simp
    then show ?thesis ..
  qed
qed

text \<open>Claim C1. In every run of \<^verbatim>\<open>upload\<close> (that is, of \<^verbatim>\<open>Upload\<close> and of
  \<^verbatim>\<open>UploadPromBlock\<close>) on a block directory, the calls of the store client made by the run
  are such that:
  \<^item> if an upload of \<^verbatim>\<open><id>/meta.json\<close> is issued, the calls before it are exactly the
    successful uploads of every regular file below the local chunks directory, in order, followed
    by the successful upload of the index, it is the last call, and all these objects are in
    the store;
  \<^item> if an upload of a content object failed, no upload of the descriptor is issued;
  \<^item> unless the descriptor upload succeeded, the object \<^verbatim>\<open><id>/meta.json\<close> of the store is what
    it was before the run;
  \<^item> a successful run has uploaded the descriptor.\<close>

theorem upload_meta_last:
  assumes "os_Stat f bdir = Inr df" and "ulidParse x (fi_Name df) = Inr bid"
    and "upload x now bkt f bdir hf checkExternalLabels = (r, b')"
  shows "\<exists>evs. trace b' = trace bkt @ evs \<and>
     (\<forall>ok. (OpUpload (Join bid MetaFilename), ok) \<in> set evs \<longrightarrow>
        evs = map (\<lambda>rel. (OpUpload (Join (Join bid ChunksDirname) rel), True))
                (walk_files f (Join bdir ChunksDirname))
              @ [(OpUpload (Join bid IndexFilename), True), (OpUpload (Join bid MetaFilename), ok)] \<and>
        (\<forall>rel \<in> set (walk_files f (Join bdir ChunksDirname)).
           map_of (objects b') (Join (Join bid ChunksDirname) rel) \<noteq> None) \<and>
        map_of (objects b') (Join bid IndexFilename) \<noteq> None) \<and>
     ((\<exists>p. p \<noteq> Join bid MetaFilename \<and> (OpUpload p, False) \<in> set evs) \<longrightarrow>
        (\<forall>ok. (OpUpload (Join bid MetaFilename), ok) \<notin> set evs)) \<and>
     ((OpUpload (Join bid MetaFilename), True) \<notin> set evs \<longrightarrow>
        map_of (objects b') (Join bid MetaFilename) = map_of (objects bkt) (Join bid MetaFilename)) \<and>
     (r = None \<longrightarrow> (OpUpload (Join bid MetaFilename), True) \<in> set evs)"
proof -
  let ?meta = "Join bid MetaFilename"
  let ?idx = "Join bid IndexFilename"
  let ?rels = "walk_files f (Join bdir ChunksDirname)"
  let ?ev = "\<lambda>rel. (OpUpload (Join (Join bid ChunksDirname) rel), True)"
  have nometa: "(OpUpload ?meta, ok) \<notin> set (map ?ev rels)" for rels ok
    by (induction rels) (simp_all add: meta_neq_chunk_path)
  have nofail: "(OpUpload p, False) \<notin> set (map ?ev rels)" for rels p
    by (induction rels) simp_all
  from upload_shape [OF assms] show ?thesis
  proof
    assume "r \<noteq> None \<and>
          (\<exists>evs. trace b' = trace bkt @ evs \<and> (\<forall>ok. (OpUpload ?meta, ok) \<notin> set evs)) \<and>
          map_of (objects b') ?meta = map_of (objects bkt) ?meta"
    then obtain evs where "r \<noteq> None" "trace b' = trace bkt @ evs"
      "\<forall>ok. (OpUpload ?meta, ok) \<notin> set evs" "map_of (objects b') ?meta = map_of (objects bkt) ?meta"
      by blast
    then show ?thesis by (intro exI [of _ evs]) simp
  next
    assume "\<exists>ok. trace b' = trace bkt @ map ?ev ?rels @ [(OpUpload ?idx, True), (OpUpload ?meta, ok)] \<and>
          (r = None \<longleftrightarrow> ok) \<and>
          (\<forall>rel \<in> set ?rels. map_of (objects b') (Join (Join bid ChunksDirname) rel) \<noteq> None) \<and>
          map_of (objects b') ?idx \<noteq> None \<and>
          (\<not> ok \<longrightarrow> map_of (objects b') ?meta = map_of (objects bkt) ?meta)"
    then obtain ok where t: "trace b' = trace bkt @ map ?ev ?rels @ [(OpUpload ?idx, True), (OpUpload ?meta, ok)]"
      and r: "r = None \<longleftrightarrow> ok"
      and c: "\<forall>rel \<in> set ?rels. map_of (objects b') (Join (Join bid ChunksDirname) rel) \<noteq> None"
      and i: "map_of (objects b') ?idx \<noteq> None"
      and m: "\<not> ok \<longrightarrow> map_of (objects b') ?meta = map_of (objects bkt) ?meta"
      by blast
    let ?evs = "map ?ev ?rels @ [(OpUpload ?idx, True), (OpUpload ?meta, ok)]"
    have mem: "(OpUpload ?meta, ok') \<in> set ?evs \<longleftrightarrow> ok' = ok" for ok'
      using nometa [of ok' ?rels] by (auto simp: meta_neq_index_path simp del: set_map)
    have fail: "(OpUpload p, False) \<in> set ?evs \<Longrightarrow> p = ?meta" for p
      using nofail [of p ?rels] by (auto simp del: set_map)
    have 1: "\<forall>ok'. (OpUpload ?meta, ok') \<in> set ?evs \<longrightarrow>
        ?evs = map ?ev ?rels @ [(OpUpload ?idx, True), (OpUpload ?meta, ok')] \<and>
        (\<forall>rel \<in> set ?rels. map_of (objects b') (Join (Join bid ChunksDirname) rel) \<noteq> None) \<and>
        map_of (objects b') ?idx \<noteq> None"
      using c i unfolding mem by simp
    have 2: "(\<exists>p. p \<noteq> ?meta \<and> (OpUpload p, False) \<in> set ?evs) \<longrightarrow>
        (\<forall>ok'. (OpUpload ?meta, ok') \<notin> set ?evs)"
      using fail by blast
    have 3: "(OpUpload ?meta, True) \<notin> set ?evs \<longrightarrow>
        map_of (objects b') ?meta = map_of (objects bkt) ?meta"
      using m unfolding mem by simp
    have 4: "r = None \<longrightarrow> (OpUpload ?meta, True) \<in> set ?evs"
      using r unfolding mem by simp
    from t 1 2 3 4 show ?thesis by (intro exI [of _ ?evs] conjI)
  qed
qed

theorem upload_meta_last_witness:
  "os_Stat (block_fs ''labelled'') ''d/B'' = Inr \<lparr>fi_Name = ''B'', fi_Size = 4096, fi_IsDir = True\<rparr>
   \<and> ulidParse example_lib ''B'' = Inr ''B''
   \<and> fst (Upload example_lib 5 empty_bkt (block_fs ''labelled'') ''d/B'' ''SHA256'') = None
   \<and> trace (snd (Upload example_lib 5 empty_bkt (block_fs ''labelled'') ''d/B'' ''SHA256'')) =
       [(OpUpload ''B/chunks/000001'', True), (OpUpload ''B/index'', True), (OpUpload ''B/meta.json'', True)]
   \<and> (\<exists>evs. trace (snd (Upload example_lib 5 empty_bkt (block_fs ''labelled'') ''d/B'' ''SHA256''))
              = trace empty_bkt @ evs \<and> (OpUpload (Join ''B'' MetaFilename), True) \<in> set evs)"
proof -
  let ?u = "upload example_lib 5 empty_bkt (block_fs ''labelled'') ''d/B'' ''SHA256'' True"
  have h1: "os_Stat (block_fs ''labelled'') ''d/B'' = Inr \<lparr>fi_Name = ''B'', fi_Size = 4096, fi_IsDir = True\<rparr>"
    by code_simp
  have h2: "ulidParse example_lib (fi_Name \<lparr>fi_Name = ''B'', fi_Size = 4096, fi_IsDir = True\<rparr>) = Inr ''B''"
    by code_simp
  have h3: "?u = (fst ?u, snd ?u)" by simp
  have r: "fst ?u = None" by code_simp
  have t: "trace (snd ?u) =
       [(OpUpload ''B/chunks/000001'', True), (OpUpload ''B/index'', True), (OpUpload ''B/meta.json'', True)]"
    by code_simp
  from upload_meta_last [OF h1 h2 h3] r
  have "\<exists>evs. trace (snd ?u) = trace empty_bkt @ evs \<and> (OpUpload (Join ''B'' MetaFilename), True) \<in> set evs"
    by auto
  with h1 h2 r t show ?thesis by (simp add: Upload_def)
qed

text \<open>Claim C5. For a block directory (a directory whose name parses as a block id) whose
  descriptor decodes with an empty labels map, \<^verbatim>\<open>Upload\<close> fails with the error that empty
  external labels are not allowed, and the bucket is returned as it was: no call of the store
  client has been made and no object has changed.\<close>

theorem Upload_requires_labels:
  assumes "os_Stat f bdir = Inr df" and "fi_IsDir df" and "ulidParse x (fi_Name df) = Inr bid"
    and "ReadFromDir x f bdir = Inr meta" and "len_map (Labels (Thanos meta)) = 0"
  shows "Upload x now bkt f bdir hf =
           (Some (Errorf ''empty external labels are not allowed for Thanos block.''), bkt)"
  using assms by (simp add: Upload_def upload_def)

theorem Upload_requires_labels_witness:
  "os_Stat (block_fs ''unlabelled'') ''d/B'' = Inr \<lparr>fi_Name = ''B'', fi_Size = 4096, fi_IsDir = True\<rparr>
   \<and> ulidParse example_lib ''B'' = Inr ''B''
   \<and> ReadFromDir example_lib (block_fs ''unlabelled'') ''d/B'' = Inr (example_meta 1 1 (Some []) [])
   \<and> len_map (Labels (Thanos (example_meta 1 1 (Some []) []))) = 0
   \<and> Upload example_lib 5 empty_bkt (block_fs ''unlabelled'') ''d/B'' ''SHA256'' =
       (Some (Errorf ''empty external labels are not allowed for Thanos block.''), empty_bkt)"
proof -
  have h1: "os_Stat (block_fs ''unlabelled'') ''d/B'' = Inr \<lparr>fi_Name = ''B'', fi_Size = 4096, fi_IsDir = True\<rparr>"
    by code_simp
  have h2: "fi_IsDir \<lparr>fi_Name = ''B'', fi_Size = 4096, fi_IsDir = True\<rparr>" by simp
  have h3: "ulidParse example_lib (fi_Name \<lparr>fi_Name = ''B'', fi_Size = 4096, fi_IsDir = True\<rparr>) = Inr ''B''"
    by code_simp
  have h4: "ReadFromDir example_lib (block_fs ''unlabelled'') ''d/B'' = Inr (example_meta 1 1 (Some []) [])"
    by code_simp
  have h5: "len_map (Labels (Thanos (example_meta 1 1 (Some []) []))) = 0"
    by code_simp
  from Upload_requires_labels [OF h1 h2 h3 h4 h5, of 5 empty_bkt "''SHA256''"] h1 h3 h4 h5
  show ?thesis by simp
qed

section \<open>Properties of the local descriptor write\<close>

lemma map_of_not_under: "map_of (filter (\<lambda>(k, n). \<not> under p k) ns) p = None"
  by (induction ns) (auto simp: under_def)

lemma renameFile_failed_rename:
  assumes "\<not> wfaulty f (wcalls f)" and "wfaulty f (Suc (wcalls f))"
  shows "fst (renameFile f from to) = Some (FsFailure ''rename'' from)"
    and "map_of (nodes (snd (renameFile f from to))) to = None"
  using assms
  by (simp_all add: renameFile_def os_RemoveAll_def os_Rename_def wcalled_def map_of_not_under)

text \<open>Claim C3, evaluated on the code. The directory \<^verbatim>\<open>d/B\<close> holds a descriptor, and the
  sixth mutating call of \<^verbatim>\<open>WriteToDir\<close>, the \<^verbatim>\<open>os.Rename\<close> of \<^verbatim>\<open>renameFile\<close>, fails
  (the state is also the one a crash between \<^verbatim>\<open>os.RemoveAll\<close> and \<^verbatim>\<open>os.Rename\<close> leaves).
  \<^verbatim>\<open>WriteToDir\<close> returns the error, and the target path holds no file at all: the old
  descriptor has been removed and the new one is still in the temporary file.\<close>

theorem WriteToDir_target_missing:
  "map_of (nodes failing_rename_fs) ''d/B/meta.json'' = Some (RegularFile ''unlabelled'')
   \<and> fst (WriteToDir example_lib failing_rename_fs (example_meta 1 1 (Some [(''tenant'', ''a'')]) []) ''d/B'')
       = Some (FsFailure ''rename'' ''d/B/meta.json.tmp'')
   \<and> map_of (nodes (snd (WriteToDir example_lib failing_rename_fs
         (example_meta 1 1 (Some [(''tenant'', ''a'')]) []) ''d/B''))) ''d/B/meta.json'' = None
   \<and> map_of (nodes (snd (WriteToDir example_lib failing_rename_fs
         (example_meta 1 1 (Some [(''tenant'', ''a'')]) []) ''d/B''))) ''d/B/meta.json.tmp''
       = Some (RegularFile ''labelled'')"
  by code_simp

section \<open>Properties of the file stat collector\<close>

lemma gather_chunks_ok:
  assumes "gather_chunks x fsys blockDir hf files res0 = Inr res"
  shows "(\<forall>f \<in> set files. (\<exists>fi. de_Info f = Inr fi) \<and>
            (hf \<noteq> NoneFunc \<and> \<not> de_IsDir f \<longrightarrow>
               (\<exists>h. CalculateHash x fsys (Join (Join blockDir ChunksDirname) (de_Name f)) hf = Inr h)))
       \<and> res = res0 @ map (\<lambda>f.
            \<lparr>RelPath = Join ChunksDirname (de_Name f), SizeBytes = fi_Size (projr (de_Info f)),
             Hash = (if hf \<noteq> NoneFunc \<and> \<not> de_IsDir f
                     then Some (projr (CalculateHash x fsys (Join (Join blockDir ChunksDirname) (de_Name f)) hf))
                     else None)\<rparr>) files"
  using assms
proof (induction files arbitrary: res0)
  case Nil
  then show ?case by simp
next
  case (Cons f files)
  from Cons.prems obtain fi where fi: "de_Info f = Inr fi"
    by (cases "de_Info f") simp_all
  show ?case
  proof (cases "hf \<noteq> NoneFunc \<and> \<not> de_IsDir f")
    case True
    with Cons.prems fi obtain h
      where h: "CalculateHash x fsys (Join (Join blockDir ChunksDirname) (de_Name f)) hf = Inr h"
      by (cases "CalculateHash x fsys (Join (Join blockDir ChunksDirname) (de_Name f)) hf") simp_all
    with Cons.prems fi True
    have "gather_chunks x fsys blockDir hf files
            (res0 @ [\<lparr>RelPath = Join ChunksDirname (de_Name f), SizeBytes = fi_Size fi, Hash = Some h\<rparr>]) = Inr res"
      by simp
    from Cons.IH [OF this] fi h True show ?thesis by simp
  next
    case False
    with Cons.prems fi
    have "gather_chunks x fsys blockDir hf files
            (res0 @ [\<lparr>RelPath = Join ChunksDirname (de_Name f), SizeBytes = fi_Size fi, Hash = None\<rparr>]) = Inr res"
      by auto
    from Cons.IH [OF this] fi False show ?thesis by auto
  qed
qed

lemma GatherFileStats_cases:
  assumes "GatherFileStats x fsys blockDir hf = Inr res"
  shows "\<exists>files chunks indexFile metaFile.
       os_ReadDir fsys (Join blockDir ChunksDirname) = Inr files \<and>
       gather_chunks x fsys blockDir hf files [] = Inr chunks \<and>
       os_Stat fsys (Join blockDir IndexFilename) = Inr indexFile \<and>
       os_Stat fsys (Join blockDir MetaFilename) = Inr metaFile \<and>
       (hf \<noteq> NoneFunc \<longrightarrow> (\<exists>h. CalculateHash x fsys (Join blockDir IndexFilename) hf = Inr h)) \<and>
       res = sort_key RelPath (chunks @
         [\<lparr>RelPath = fi_Name indexFile, SizeBytes = fi_Size indexFile,
           Hash = (if hf \<noteq> NoneFunc
                   then Some (projr (CalculateHash x fsys (Join blockDir IndexFilename) hf)) else None)\<rparr>,
          \<lparr>RelPath = fi_Name metaFile, SizeBytes = 0, Hash = None\<rparr>])"
  using assms
  by (auto simp: GatherFileStats_def Let_def split: sum.splits if_splits)


lemma mset_sorted_two: "mset (sort_key k (xs @ [a, b])) = mset xs + {#a, b#}"
  by simp

text \<open>Claim C8 as stated fails on a chunks directory that holds a subdirectory: with the
  non-trivial hash function \<^verbatim>\<open>SHA256\<close> configured, the manifest has an entry for the
  subdirectory, and that entry carries no hash.\<close>

theorem GatherFileStats_directory_entry_unhashed:
  "''SHA256'' \<noteq> NoneFunc
   \<and> GatherFileStats example_lib subdir_fs ''d/B'' ''SHA256'' =
       Inr [\<lparr>RelPath = ''chunks/000001'', SizeBytes = 2, Hash = Some \<lparr>Func = ''SHA256'', Value = ''ba''\<rparr>\<rparr>,
            \<lparr>RelPath = ''chunks/sub'', SizeBytes = 4096, Hash = None\<rparr>,
            \<lparr>RelPath = ''index'', SizeBytes = 3, Hash = Some \<lparr>Func = ''SHA256'', Value = ''xdi''\<rparr>\<rparr>,
            \<lparr>RelPath = ''meta.json'', SizeBytes = 0, Hash = None\<rparr>]"
  by code_simp

lemma GatherFileStats_success:
  assumes "GatherFileStats x fsys blockDir hf = Inr res"
  shows "sorted (map RelPath res) \<and>
     (\<exists>files indexFile metaFile.
        os_ReadDir fsys (Join blockDir ChunksDirname) = Inr files \<and>
        os_Stat fsys (Join blockDir IndexFilename) = Inr indexFile \<and>
        os_Stat fsys (Join blockDir MetaFilename) = Inr metaFile \<and>
        (\<forall>f \<in> set files. (\<exists>fi. de_Info f = Inr fi) \<and>
           (hf \<noteq> NoneFunc \<and> \<not> de_IsDir f \<longrightarrow>
              (\<exists>h. CalculateHash x fsys (Join (Join blockDir ChunksDirname) (de_Name f)) hf = Inr h))) \<and>
        (hf \<noteq> NoneFunc \<longrightarrow> (\<exists>h. CalculateHash x fsys (Join blockDir IndexFilename) hf = Inr h)) \<and>
        mset res =
          mset (map (\<lambda>f.
            \<lparr>RelPath = Join ChunksDirname (de_Name f), SizeBytes = fi_Size (projr (de_Info f)),
             Hash = (if hf \<noteq> NoneFunc \<and> \<not> de_IsDir f
                     then Some (projr (CalculateHash x fsys (Join (Join blockDir ChunksDirname) (de_Name f)) hf))
                     else None)\<rparr>) files)
          + {#\<lparr>RelPath = fi_Name indexFile, SizeBytes = fi_Size indexFile,
               Hash = (if hf \<noteq> NoneFunc
                       then Some (projr (CalculateHash x fsys (Join blockDir IndexFilename) hf)) else None)\<rparr>,
              \<lparr>RelPath = fi_Name metaFile, SizeBytes = 0, Hash = None\<rparr>#})"
proof -
  from GatherFileStats_cases [OF assms] obtain files chunks indexFile metaFile
    where rd: "os_ReadDir fsys (Join blockDir ChunksDirname) = Inr files"
      and gc: "gather_chunks x fsys blockDir hf files [] = Inr chunks"
      and si: "os_Stat fsys (Join blockDir IndexFilename) = Inr indexFile"
      and sm: "os_Stat fsys (Join blockDir MetaFilename) = Inr metaFile"
      and hi: "hf \<noteq> NoneFunc \<longrightarrow> (\<exists>h. CalculateHash x fsys (Join blockDir IndexFilename) hf = Inr h)"
      and res: "res = sort_key RelPath (chunks @
         [\<lparr>RelPath = fi_Name indexFile, SizeBytes = fi_Size indexFile,
           Hash = (if hf \<noteq> NoneFunc
                   then Some (projr (CalculateHash x fsys (Join blockDir IndexFilename) hf)) else None)\<rparr>,
          \<lparr>RelPath = fi_Name metaFile, SizeBytes = 0, Hash = None\<rparr>])"
    by blast
  have s: "sorted (map RelPath res)"
    unfolding res by (rule sorted_sort_key)
  from gather_chunks_ok [OF gc]
  have all: "\<forall>f \<in> set files. (\<exists>fi. de_Info f = Inr fi) \<and>
           (hf \<noteq> NoneFunc \<and> \<not> de_IsDir f \<longrightarrow>
              (\<exists>h. CalculateHash x fsys (Join (Join blockDir ChunksDirname) (de_Name f)) hf = Inr h))"
    and ch: "chunks = map (\<lambda>f.
            \<lparr>RelPath = Join ChunksDirname (de_Name f), SizeBytes = fi_Size (projr (de_Info f)),
             Hash = (if hf \<noteq> NoneFunc \<and> \<not> de_IsDir f
                     then Some (projr (CalculateHash x fsys (Join (Join blockDir ChunksDirname) (de_Name f)) hf))
                     else None)\<rparr>) files"
    by simp_all
  have m: "mset res = mset chunks
          + {#\<lparr>RelPath = fi_Name indexFile, SizeBytes = fi_Size indexFile,
               Hash = (if hf \<noteq> NoneFunc
                       then Some (projr (CalculateHash x fsys (Join blockDir IndexFilename) hf)) else None)\<rparr>,
              \<lparr>RelPath = fi_Name metaFile, SizeBytes = 0, Hash = None\<rparr>#}"
    unfolding res by (rule mset_sorted_two)
  from s rd si sm all hi m show ?thesis
    unfolding ch
    by (intro conjI exI [of _ files] exI [of _ indexFile] exI [of _ metaFile]) assumption+
qed

lemma gather_chunks_total:
  assumes "\<forall>f \<in> set files. (\<exists>fi. de_Info f = Inr fi) \<and>
            (hf \<noteq> NoneFunc \<and> \<not> de_IsDir f \<longrightarrow>
               (\<exists>h. CalculateHash x fsys (Join (Join blockDir ChunksDirname) (de_Name f)) hf = Inr h))"
  shows "\<exists>res. gather_chunks x fsys blockDir hf files res0 = Inr res"
  using assms
proof (induction files arbitrary: res0)
  case Nil
  then show ?case by simp
next
  case (Cons f files)
  from Cons.prems obtain fi where fi: "de_Info f = Inr fi" by auto
  from Cons.prems
  have rest: "\<forall>f \<in> set files. (\<exists>fi. de_Info f = Inr fi) \<and>
            (hf \<noteq> NoneFunc \<and> \<not> de_IsDir f \<longrightarrow>
               (\<exists>h. CalculateHash x fsys (Join (Join blockDir ChunksDirname) (de_Name f)) hf = Inr h))"
    by simp
  show ?case
  proof (cases "hf \<noteq> NoneFunc \<and> \<not> de_IsDir f")
    case True
    with Cons.prems obtain h
      where h: "CalculateHash x fsys (Join (Join blockDir ChunksDirname) (de_Name f)) hf = Inr h"
      by auto
    from Cons.IH [OF rest] fi h True show ?thesis by simp
  next
    case False
    from Cons.IH [OF rest] fi False show ?thesis by auto
  qed
qed

lemma GatherFileStats_total:
  assumes rd: "os_ReadDir fsys (Join blockDir ChunksDirname) = Inr files"
    and si: "os_Stat fsys (Join blockDir IndexFilename) = Inr indexFile"
    and sm: "os_Stat fsys (Join blockDir MetaFilename) = Inr metaFile"
    and all: "\<forall>f \<in> set files. (\<exists>fi. de_Info f = Inr fi) \<and>
            (hf \<noteq> NoneFunc \<and> \<not> de_IsDir f \<longrightarrow>
               (\<exists>h. CalculateHash x fsys (Join (Join blockDir ChunksDirname) (de_Name f)) hf = Inr h))"
    and hi: "hf \<noteq> NoneFunc \<longrightarrow> (\<exists>h. CalculateHash x fsys (Join blockDir IndexFilename) hf = Inr h)"
  shows "\<exists>res. GatherFileStats x fsys blockDir hf = Inr res"
proof -
  from gather_chunks_total [OF all] obtain chunks
    where gc: "gather_chunks x fsys blockDir hf files [] = Inr chunks" by blast
  show ?thesis
  proof (cases "hf = NoneFunc")
    case True
    with rd gc si sm show ?thesis by (simp add: GatherFileStats_def Let_def)
  next
    case False
    with hi obtain h where "CalculateHash x fsys (Join blockDir IndexFilename) hf = Inr h" by blast
    with False rd gc si sm show ?thesis by (simp add: GatherFileStats_def Let_def)
  qed
qed


text \<open>Claim C8, amended. For every local block directory, \<^verbatim>\<open>GatherFileStats\<close> returns a
  manifest exactly when reading the chunks directory, the \<^verbatim>\<open>lstat\<close> of each of its entries,
  the \<^verbatim>\<open>stat\<close> of the index and of the descriptor, and every hash calculation that is due all
  succeed; a failure of any of them makes the collection return an error. The manifest is sorted
  by relative path and consists of exactly one entry per directory entry of the chunks
  directory, regular file or subdirectory, with its size, one entry for the index with its size,
  and one entry for the descriptor with no size and no hash. A chunk entry carries a hash
  exactly when a non-trivial hash function is configured and the entry is not a directory; the
  index entry carries one exactly when a non-trivial hash function is configured.\<close>

theorem GatherFileStats_manifest:
  "((\<exists>res. GatherFileStats x fsys blockDir hf = Inr res) \<longleftrightarrow>
      (\<exists>files indexFile metaFile.
         os_ReadDir fsys (Join blockDir ChunksDirname) = Inr files \<and>
         os_Stat fsys (Join blockDir IndexFilename) = Inr indexFile \<and>
         os_Stat fsys (Join blockDir MetaFilename) = Inr metaFile \<and>
         (\<forall>f \<in> set files. (\<exists>fi. de_Info f = Inr fi) \<and>
            (hf \<noteq> NoneFunc \<and> \<not> de_IsDir f \<longrightarrow>
               (\<exists>h. CalculateHash x fsys (Join (Join blockDir ChunksDirname) (de_Name f)) hf = Inr h))) \<and>
         (hf \<noteq> NoneFunc \<longrightarrow> (\<exists>h. CalculateHash x fsys (Join blockDir IndexFilename) hf = Inr h))))
   \<and> ((\<forall>res. GatherFileStats x fsys blockDir hf \<noteq> Inr res) \<longrightarrow>
        (\<exists>e. GatherFileStats x fsys blockDir hf = Inl e))
   \<and> (\<forall>res. GatherFileStats x fsys blockDir hf = Inr res \<longrightarrow>
        sorted (map RelPath res) \<and>
        (\<exists>files indexFile metaFile.
           os_ReadDir fsys (Join blockDir ChunksDirname) = Inr files \<and>
           os_Stat fsys (Join blockDir IndexFilename) = Inr indexFile \<and>
           os_Stat fsys (Join blockDir MetaFilename) = Inr metaFile \<and>
           mset res =
             mset (map (\<lambda>f.
               \<lparr>RelPath = Join ChunksDirname (de_Name f), SizeBytes = fi_Size (projr (de_Info f)),
                Hash = (if hf \<noteq> NoneFunc \<and> \<not> de_IsDir f
                        then Some (projr (CalculateHash x fsys (Join (Join blockDir ChunksDirname) (de_Name f)) hf))
                        else None)\<rparr>) files)
             + {#\<lparr>RelPath = fi_Name indexFile, SizeBytes = fi_Size indexFile,
                  Hash = (if hf \<noteq> NoneFunc
                          then Some (projr (CalculateHash x fsys (Join blockDir IndexFilename) hf)) else None)\<rparr>,
                 \<lparr>RelPath = fi_Name metaFile, SizeBytes = 0, Hash = None\<rparr>#}))"
  (is "(?S \<longleftrightarrow> ?C) \<and> ?E \<and> ?M")
proof (intro conjI)
  show "?S \<longleftrightarrow> ?C"
  proof
    assume ?S
    then obtain res where r: "GatherFileStats x fsys blockDir hf = Inr res" by blast
    from GatherFileStats_cases [OF r] obtain files chunks indexFile metaFile
      where rd: "os_ReadDir fsys (Join blockDir ChunksDirname) = Inr files"
        and gc: "gather_chunks x fsys blockDir hf files [] = Inr chunks"
        and si: "os_Stat fsys (Join blockDir IndexFilename) = Inr indexFile"
        and sm: "os_Stat fsys (Join blockDir MetaFilename) = Inr metaFile"
        and hi: "hf \<noteq> NoneFunc \<longrightarrow> (\<exists>h. CalculateHash x fsys (Join blockDir IndexFilename) hf = Inr h)"
      by blast
    from gather_chunks_ok [OF gc]
    have all: "\<forall>f \<in> set files. (\<exists>fi. de_Info f = Inr fi) \<and>
           (hf \<noteq> NoneFunc \<and> \<not> de_IsDir f \<longrightarrow>
              (\<exists>h. CalculateHash x fsys (Join (Join blockDir ChunksDirname) (de_Name f)) hf = Inr h))"
      by simp
    from rd si sm all hi show ?C
      by (intro exI [of _ files] exI [of _ indexFile] exI [of _ metaFile] conjI) assumption+
  next
    assume ?C
    then obtain files indexFile metaFile
      where "os_ReadDir fsys (Join blockDir ChunksDirname) = Inr files"
        and "os_Stat fsys (Join blockDir IndexFilename) = Inr indexFile"
        and "os_Stat fsys (Join blockDir MetaFilename) = Inr metaFile"
        and "\<forall>f \<in> set files. (\<exists>fi. de_Info f = Inr fi) \<and>
            (hf \<noteq> NoneFunc \<and> \<not> de_IsDir f \<longrightarrow>
               (\<exists>h. CalculateHash x fsys (Join (Join blockDir ChunksDirname) (de_Name f)) hf = Inr h))"
        and "hf \<noteq> NoneFunc \<longrightarrow> (\<exists>h. CalculateHash x fsys (Join blockDir IndexFilename) hf = Inr h)"
      by blast
    then show ?S by (rule GatherFileStats_total)
  qed
next
  show ?E by (cases "GatherFileStats x fsys blockDir hf") simp_all
next
  show ?M
  proof (intro allI impI)
    fix res
    assume "GatherFileStats x fsys blockDir hf = Inr res"
    from GatherFileStats_success [OF this]
    show "sorted (map RelPath res) \<and>
        (\<exists>files indexFile metaFile.
           os_ReadDir fsys (Join blockDir ChunksDirname) = Inr files \<and>
           os_Stat fsys (Join blockDir IndexFilename) = Inr indexFile \<and>
           os_Stat fsys (Join blockDir MetaFilename) = Inr metaFile \<and>
           mset res =
             mset (map (\<lambda>f.
               \<lparr>RelPath = Join ChunksDirname (de_Name f), SizeBytes = fi_Size (projr (de_Info f)),
                Hash = (if hf \<noteq> NoneFunc \<and> \<not> de_IsDir f
                        then Some (projr (CalculateHash x fsys (Join (Join blockDir ChunksDirname) (de_Name f)) hf))
                        else None)\<rparr>) files)
             + {#\<lparr>RelPath = fi_Name indexFile, SizeBytes = fi_Size indexFile,
                  Hash = (if hf \<noteq> NoneFunc
                          then Some (projr (CalculateHash x fsys (Join blockDir IndexFilename) hf)) else None)\<rparr>,
                 \<lparr>RelPath = fi_Name metaFile, SizeBytes = 0, Hash = None\<rparr>#})"
      by (elim conjE exE) (intro conjI exI, assumption+)
  qed
qed

theorem GatherFileStats_manifest_witness:
  "GatherFileStats example_lib subdir_fs ''d/B'' ''SHA256'' = Inr [\<lparr>RelPath = ''chunks/000001'', SizeBytes = 2, Hash = Some \<lparr>Func = ''SHA256'', Value = ''ba''\<rparr>\<rparr>,
          \<lparr>RelPath = ''chunks/sub'', SizeBytes = 4096, Hash = None\<rparr>,
          \<lparr>RelPath = ''index'', SizeBytes = 3, Hash = Some \<lparr>Func = ''SHA256'', Value = ''xdi''\<rparr>\<rparr>,
          \<lparr>RelPath = ''meta.json'', SizeBytes = 0, Hash = None\<rparr>]
   \<and> sorted (map RelPath [\<lparr>RelPath = ''chunks/000001'', SizeBytes = 2, Hash = Some \<lparr>Func = ''SHA256'', Value = ''ba''\<rparr>\<rparr>,
          \<lparr>RelPath = ''chunks/sub'', SizeBytes = 4096, Hash = None\<rparr>,
          \<lparr>RelPath = ''index'', SizeBytes = 3, Hash = Some \<lparr>Func = ''SHA256'', Value = ''xdi''\<rparr>\<rparr>,
          \<lparr>RelPath = ''meta.json'', SizeBytes = 0, Hash = None\<rparr>])
   \<and> GatherFileStats example_lib subdir_fs ''d/B'' NoneFunc = Inr [\<lparr>RelPath = ''chunks/000001'', SizeBytes = 2, Hash = None\<rparr>,
          \<lparr>RelPath = ''chunks/sub'', SizeBytes = 4096, Hash = None\<rparr>,
          \<lparr>RelPath = ''index'', SizeBytes = 3, Hash = None\<rparr>,
          \<lparr>RelPath = ''meta.json'', SizeBytes = 0, Hash = None\<rparr>]
   \<and> sorted (map RelPath [\<lparr>RelPath = ''chunks/000001'', SizeBytes = 2, Hash = None\<rparr>,
          \<lparr>RelPath = ''chunks/sub'', SizeBytes = 4096, Hash = None\<rparr>,
          \<lparr>RelPath = ''index'', SizeBytes = 3, Hash = None\<rparr>,
          \<lparr>RelPath = ''meta.json'', SizeBytes = 0, Hash = None\<rparr>])
   \<and> (\<forall>res. GatherFileStats example_lib subdir_fs ''d'' ''SHA256'' \<noteq> Inr res)
   \<and> (\<exists>e. GatherFileStats example_lib subdir_fs ''d'' ''SHA256'' = Inl e)"
proof -
  have h: "GatherFileStats example_lib subdir_fs ''d/B'' ''SHA256'' = Inr [\<lparr>RelPath = ''chunks/000001'', SizeBytes = 2, Hash = Some \<lparr>Func = ''SHA256'', Value = ''ba''\<rparr>\<rparr>,
          \<lparr>RelPath = ''chunks/sub'', SizeBytes = 4096, Hash = None\<rparr>,
          \<lparr>RelPath = ''index'', SizeBytes = 3, Hash = Some \<lparr>Func = ''SHA256'', Value = ''xdi''\<rparr>\<rparr>,
          \<lparr>RelPath = ''meta.json'', SizeBytes = 0, Hash = None\<rparr>]"
    by code_simp
  have n: "GatherFileStats example_lib subdir_fs ''d/B'' NoneFunc = Inr [\<lparr>RelPath = ''chunks/000001'', SizeBytes = 2, Hash = None\<rparr>,
          \<lparr>RelPath = ''chunks/sub'', SizeBytes = 4096, Hash = None\<rparr>,
          \<lparr>RelPath = ''index'', SizeBytes = 3, Hash = None\<rparr>,
          \<lparr>RelPath = ''meta.json'', SizeBytes = 0, Hash = None\<rparr>]"
    by code_simp
  have "GatherFileStats example_lib subdir_fs ''d'' ''SHA256'' = Inl (Wrap (NotExist ''d/chunks'') ''read dir'')"
    by code_simp
  then have f: "\<forall>res. GatherFileStats example_lib subdir_fs ''d'' ''SHA256'' \<noteq> Inr res"
    by simp
  note m = GatherFileStats_manifest [THEN conjunct2, THEN conjunct2, rule_format]
  note e = GatherFileStats_manifest [THEN conjunct2, THEN conjunct1, rule_format]
  from m [OF h] have g: "sorted (map RelPath [\<lparr>RelPath = ''chunks/000001'', SizeBytes = 2, Hash = Some \<lparr>Func = ''SHA256'', Value = ''ba''\<rparr>\<rparr>,
          \<lparr>RelPath = ''chunks/sub'', SizeBytes = 4096, Hash = None\<rparr>,
          \<lparr>RelPath = ''index'', SizeBytes = 3, Hash = Some \<lparr>Func = ''SHA256'', Value = ''xdi''\<rparr>\<rparr>,
          \<lparr>RelPath = ''meta.json'', SizeBytes = 0, Hash = None\<rparr>])"
    by (rule conjunct1)
  from m [OF n] have g0: "sorted (map RelPath [\<lparr>RelPath = ''chunks/000001'', SizeBytes = 2, Hash = None\<rparr>,
          \<lparr>RelPath = ''chunks/sub'', SizeBytes = 4096, Hash = None\<rparr>,
          \<lparr>RelPath = ''index'', SizeBytes = 3, Hash = None\<rparr>,
          \<lparr>RelPath = ''meta.json'', SizeBytes = 0, Hash = None\<rparr>])"
    by (rule conjunct1)
  from e [OF f [rule_format]]
  have ge: "\<exists>e. GatherFileStats example_lib subdir_fs ''d'' ''SHA256'' = Inl e" .
  from h g n g0 f ge show ?thesis by (intro conjI)
qed

section \<open>Properties of the downloader\<close>

lemma mkdir_fold:
  "map_of (foldl (\<lambda>ns q. if map_of ns q = None then ns @ [(q, Directory)] else ns) ns qs) k =
     (case map_of ns k of Some v \<Rightarrow> Some v
      | None \<Rightarrow> if k \<in> set qs then Some Directory else None)"
proof (induction qs arbitrary: ns)
  case Nil
  then show ?case by (simp split: option.splits)
next
  case (Cons q qs)
  show ?case
    by (simp add: Cons.IH map_add_def split: option.splits)
qed

lemma os_MkdirAll_directory:
  assumes "os_MkdirAll f p = (None, f1)"
  shows "map_of (nodes f1) p = Some Directory"
proof -
  from assms have nf: "\<not> list_ex (is_file f) (ancestors p)"
    and n: "nodes f1 = foldl (\<lambda>ns q. if map_of ns q = None then ns @ [(q, Directory)] else ns)
                (nodes f) (ancestors p)"
    by (auto simp: os_MkdirAll_def wcalled_def split: if_splits)
  have mem: "p \<in> set (ancestors p)" by (simp add: ancestors_def)
  with nf have "\<not> is_file f p" by (auto simp: list_ex_iff)
  then have "map_of (nodes f) p = None \<or> map_of (nodes f) p = Some Directory"
    by (auto simp: is_file_def split: option.splits node.splits)
  then show ?thesis
    unfolding n mkdir_fold using mem by auto
qed

lemma meta_path_neq_dir: "Join dst MetaFilename \<noteq> dst"
  by (simp add: Join_def MetaFilename_def DirDelim_def)

lemma bkt_Get_trace:
  assumes "bkt_Get b name = (res, b1)"
  shows "trace b1 = trace b @ [(OpGet name, \<not> isl res)]" and "objects b1 = objects b"
  using assms by (auto simp: bkt_Get_def split: if_splits option.splits)

lemma DownloadFile_trace:
  assumes "DownloadFile b f src d = (r, b1, f2)"
  shows "\<exists>ok. trace b1 = trace b @ [(OpGet src, ok)] \<and> (r = None \<longrightarrow> ok)"
proof -
  obtain res bg where g: "bkt_Get b src = (res, bg)" by (cases "bkt_Get b src")
  from assms g have "b1 = bg" "r = None \<longrightarrow> \<not> isl res"
    by (auto simp: DownloadFile_def split: sum.splits prod.splits option.splits)
  with bkt_Get_trace(1) [OF g] show ?thesis by auto
qed

lemma os_Create_frame:
  assumes "os_Create f p = (None, f1)" and "q \<noteq> p"
  shows "map_of (nodes f1) q = map_of (nodes f) q"
  using assms by (auto simp: os_Create_def wcalled_def update_conv' split: if_splits)

lemma file_Write_frame:
  assumes "file_Write f p d = (None, f1)" and "q \<noteq> p"
  shows "map_of (nodes f1) q = map_of (nodes f) q"
  using assms by (auto simp: file_Write_def wcalled_def update_conv' split: if_splits)

lemma DownloadFile_frame:
  assumes "DownloadFile b f src d = (None, b1, f2)" and "q \<noteq> d"
  shows "map_of (nodes f2) q = map_of (nodes f) q"
proof -
  obtain res bg where g: "bkt_Get b src = (res, bg)" by (cases "bkt_Get b src")
  with assms(1) obtain rc where rc: "res = Inr rc"
    by (cases res) (auto simp: DownloadFile_def)
  obtain rcr fc where c: "os_Create f d = (rcr, fc)" by (cases "os_Create f d")
  with assms(1) g rc have c': "os_Create f d = (None, fc)"
    by (cases rcr) (auto simp: DownloadFile_def)
  from assms(1) g rc c' obtain dat where rr: "rc_read rc = Inr dat"
    by (cases "rc_read rc") (auto simp: DownloadFile_def)
  obtain rw fw where w: "file_Write fc d dat = (rw, fw)" by (cases "file_Write fc d dat")
  with assms(1) g rc c' rr have w': "file_Write fc d dat = (None, f2)"
    by (cases rw) (auto simp: DownloadFile_def)
  from os_Create_frame [OF c' assms(2)] file_Write_frame [OF w' assms(2)] show ?thesis by simp
qed

lemma CalculateHash_directory:
  assumes "map_of (nodes f) p = Some Directory"
  shows "CalculateHash x f p hf \<noteq> Inr a"
  using assms
  by (simp add: CalculateHash_def ReadFile_def os_Open_def split: option.splits)

lemma ignored_paths_eq:
  "ignored_paths x f dst fls acc =
     acc @ map RelPath (filter (\<lambda>fl. \<exists>h a. Hash fl = Some h \<and> Func h \<noteq> NoneFunc \<and> RelPath fl \<noteq> [] \<and>
        CalculateHash x f (Join dst (RelPath fl)) (Func h) = Inr a \<and> Equal h a) fls)"
proof (induction fls arbitrary: acc)
  case Nil
  then show ?case by simp
next
  case (Cons fl fls)
  show ?case
  proof (cases "Hash fl")
    case None
    then show ?thesis by (simp add: Cons.IH)
  next
    case (Some h)
    show ?thesis
    proof (cases "Func h = NoneFunc \<or> RelPath fl = []")
      case True
      with Some show ?thesis by (auto simp: Cons.IH)
    next
      case False
      show ?thesis
      proof (cases "CalculateHash x f (Join dst (RelPath fl)) (Func h)")
        case (Inl e)
        with Some False show ?thesis by (simp add: Cons.IH)
      next
        case (Inr a)
        with Some False show ?thesis by (simp add: Cons.IH)
      qed
    qed
  qed
qed


lemma TrimPrefix_append: "TrimPrefix (pre @ p) pre = p"
  by (simp add: TrimPrefix_def HasPrefix_def)

lemma download_each_trace:
  assumes "download_each originalSrc dst ign names b f = (r, b', f')"
  shows "\<exists>evs. trace b' = trace b @ evs \<and>
     (\<forall>e \<in> set evs. \<exists>name ok. e = (OpGet name, ok) \<and>
        TrimPrefix name (originalSrc @ DirDelim) \<notin> set ign)"
  using assms
proof (induction names arbitrary: b f)
  case Nil
  then show ?case by simp
next
  case (Cons name names)
  let ?rel = "TrimPrefix name (originalSrc @ DirDelim)"
  show ?case
  proof (cases "?rel \<in> set ign")
    case True
    with Cons.prems have "download_each originalSrc dst ign names b f = (r, b', f')"
      by (simp add: Let_def)
    from Cons.IH [OF this] show ?thesis .
  next
    case False
    obtain rm f1 where mk: "os_MkdirAll f (Dir (Join dst ?rel)) = (rm, f1)"
      by (cases "os_MkdirAll f (Dir (Join dst ?rel))")
    show ?thesis
    proof (cases rm)
      case (Some e)
      with Cons.prems False mk have "b' = b" by (simp add: Let_def)
      then show ?thesis by simp
    next
      case None
      obtain rd b1 f2 where df: "DownloadFile b f1 name (Join dst ?rel) = (rd, b1, f2)"
        by (cases "DownloadFile b f1 name (Join dst ?rel)") auto
      from DownloadFile_trace [OF df] obtain ok where t1: "trace b1 = trace b @ [(OpGet name, ok)]"
        by blast
      show ?thesis
      proof (cases rd)
        case (Some e)
        with Cons.prems False mk None df have "b' = b1" by (simp add: Let_def)
        with t1 False show ?thesis by simp
      next
        case rdn: None
        with Cons.prems False mk None df
        have "download_each originalSrc dst ign names b1 f2 = (r, b', f')" by (simp add: Let_def)
        from Cons.IH [OF this] obtain evs where "trace b' = trace b1 @ evs"
          and "\<forall>e \<in> set evs. \<exists>name ok. e = (OpGet name, ok) \<and>
                 TrimPrefix name (originalSrc @ DirDelim) \<notin> set ign"
          by blast
        with t1 False show ?thesis
          by (intro exI [of _ "(OpGet name, ok) # evs"]) auto
      qed
    qed
  qed
qed

lemma DownloadDir_trace:
  assumes "DownloadDir b f originalSrc src dst ign = (r, b', f')"
  shows "\<exists>evs. trace b' = trace b @ evs \<and>
     (\<forall>p \<in> set ign. \<forall>ok. (OpGet (originalSrc @ DirDelim @ p), ok) \<notin> set evs)"
proof -
  obtain rm f1 where mk: "os_MkdirAll f dst = (rm, f1)" by (cases "os_MkdirAll f dst")
  show ?thesis
  proof (cases rm)
    case (Some e)
    with assms mk have "b' = b" by (simp add: DownloadDir_def)
    then show ?thesis by simp
  next
    case None
    show ?thesis
    proof (cases "faulty b (calls b)")
      case True
      with assms mk None have "b' = called b (OpIter src) False" by (simp add: DownloadDir_def)
      then show ?thesis by (intro exI [of _ "[(OpIter src, False)]"]) simp
    next
      case False
      with assms mk None obtain names
        where "download_each originalSrc dst ign names (called b (OpIter src) True) f1 = (r, b', f')"
        by (simp add: DownloadDir_def)
      from download_each_trace [OF this] obtain evs
        where t: "trace b' = trace b @ (OpIter src, True) # evs"
          and e: "\<forall>e \<in> set evs. \<exists>name ok. e = (OpGet name, ok) \<and>
                 TrimPrefix name (originalSrc @ DirDelim) \<notin> set ign"
        by auto
      have "\<forall>p \<in> set ign. \<forall>ok. (OpGet (originalSrc @ DirDelim @ p), ok) \<notin> set evs"
      proof (intro ballI allI notI)
        fix p ok assume p: "p \<in> set ign" and "(OpGet (originalSrc @ DirDelim @ p), ok) \<in> set evs"
        with e have "TrimPrefix (originalSrc @ DirDelim @ p) (originalSrc @ DirDelim) \<notin> set ign"
          by fastforce
        with p TrimPrefix_append [of "originalSrc @ DirDelim" p] show False by simp
      qed
      with t show ?thesis
        by (intro exI [of _ "(OpIter src, True) # evs"]) simp
    qed
  qed
qed

lemma Download_after_descriptor:
  assumes "os_MkdirAll f dst = (None, f1)"
    and "DownloadFile bucket f1 (Join bid MetaFilename) (Join dst MetaFilename) = (None, b1, f2)"
    and "ReadFromDir x f2 dst = Inr m"
    and "DownloadDir b1 f2 bid bid dst (ignored_paths x f2 dst (Files (Thanos m)) [MetaFilename]) = (r2, b2, f3)"
    and "Download x bucket f bid dst = (r, b', f')"
  shows "b' = b2" and "r2 \<noteq> None \<Longrightarrow> r = r2 \<and> f' = f3"
    and "r2 = None \<Longrightarrow> (r, f') =
              (case os_Stat f3 (Join dst ChunksDirname) of
                   Inl err \<Rightarrow> if IsNotExist err then os_Mkdir f3 (Join dst ChunksDirname)
                              else (Some (Wrap err ''stat''), f3)
                 | Inr fi \<Rightarrow> (None, f3))"
  using assms
  by (auto simp: Download_def Let_def split: option.splits sum.splits if_splits prod.splits)

lemma Download_first_call:
  assumes "Download x bucket f bid dst = (r, b', f')"
  shows "(\<exists>e f1. os_MkdirAll f dst = (Some e, f1) \<and> r \<noteq> None \<and> b' = bucket)
       \<or> (\<exists>ok evs. trace b' = trace bucket @ (OpGet (Join bid MetaFilename), ok) # evs)"
proof -
  obtain rm f1 where mk: "os_MkdirAll f dst = (rm, f1)" by (cases "os_MkdirAll f dst")
  show ?thesis
  proof (cases rm)
    case (Some e)
    with assms mk show ?thesis by (auto simp: Download_def)
  next
    case None
    obtain rd b1 f2 where df: "DownloadFile bucket f1 (Join bid MetaFilename) (Join dst MetaFilename) = (rd, b1, f2)"
      by (cases "DownloadFile bucket f1 (Join bid MetaFilename) (Join dst MetaFilename)") auto
    from DownloadFile_trace [OF df] obtain ok
      where t1: "trace b1 = trace bucket @ [(OpGet (Join bid MetaFilename), ok)]" by blast
    have "\<exists>evs. trace b' = trace b1 @ evs"
    proof (cases rd)
      case (Some e)
      with assms mk None df have "b' = b1" by (simp add: Download_def)
      then show ?thesis by simp
    next
      case rdn: None
      show ?thesis
      proof (cases "ReadFromDir x f2 dst")
        case (Inl e)
        with assms mk None df rdn have "b' = b1" by (simp add: Download_def)
        then show ?thesis by simp
      next
        case (Inr m)
        obtain r2 b2 f3
          where dd: "DownloadDir b1 f2 bid bid dst (ignored_paths x f2 dst (Files (Thanos m)) [MetaFilename]) = (r2, b2, f3)"
          by (cases "DownloadDir b1 f2 bid bid dst (ignored_paths x f2 dst (Files (Thanos m)) [MetaFilename])") auto
        from Download_after_descriptor(1) [OF mk [unfolded None] df [unfolded rdn] Inr dd assms]
        have "b' = b2" .
        with DownloadDir_trace [OF dd] show ?thesis by blast
      qed
    qed
    with t1 show ?thesis by auto
  qed
qed


text \<open>Claim C7. In every run of \<^verbatim>\<open>Download\<close>:
  \<^item> unless the destination directory cannot be created, the first call of the store client is
    the \<^verbatim>\<open>Get\<close> of \<^verbatim>\<open><id>/meta.json\<close>, whatever the destination already holds;
  \<^item> once the descriptor has been fetched and decoded, the run always goes on to the bulk
    download (the loop over the manifest has no error exit), and the paths it passes as ignored
    are \<^verbatim>\<open>meta.json\<close> and the relative paths of the manifest entries with a non-trivial hash
    for which the hash of the local file at the destination can be calculated and equals the
    recorded one; an entry whose local hash differs or cannot be calculated adds nothing;
  \<^item> the bulk download issues no \<^verbatim>\<open>Get\<close> for an ignored path;
  \<^item> from there on the result of the run is fixed by the bulk download and the final check of
    the chunks directory alone: an error of the bulk download is returned as it is, and after a
    successful bulk download the result is that of the check (success when the chunks directory
    exists, the result of creating it when it does not). So a hash that differs or cannot be
    calculated never makes \<^verbatim>\<open>Download\<close> fail.\<close>

theorem Download_skips_matching_files:
  assumes "Download x bucket f bid dst = (r, b', f')"
  shows "((\<exists>e f1. os_MkdirAll f dst = (Some e, f1) \<and> r \<noteq> None \<and> b' = bucket)
          \<or> (\<exists>ok evs. trace b' = trace bucket @ (OpGet (Join bid MetaFilename), ok) # evs))
     \<and> (\<forall>f1 b1 f2 m.
           os_MkdirAll f dst = (None, f1) \<and>
           DownloadFile bucket f1 (Join bid MetaFilename) (Join dst MetaFilename) = (None, b1, f2) \<and>
           ReadFromDir x f2 dst = Inr m \<longrightarrow>
           (\<exists>ign r2 f3 evs.
              ign = MetaFilename # map RelPath (filter (\<lambda>fl. \<exists>h a. Hash fl = Some h \<and> Func h \<noteq> NoneFunc \<and>
                      CalculateHash x f2 (Join dst (RelPath fl)) (Func h) = Inr a \<and> Equal h a)
                    (Files (Thanos m))) \<and>
              DownloadDir b1 f2 bid bid dst ign = (r2, b', f3) \<and>
              (r2 \<noteq> None \<longrightarrow> r = r2 \<and> f' = f3) \<and>
              (r2 = None \<longrightarrow> (r, f') =
                (case os_Stat f3 (Join dst ChunksDirname) of
                   Inl err \<Rightarrow> if IsNotExist err then os_Mkdir f3 (Join dst ChunksDirname)
                              else (Some (Wrap err ''stat''), f3)
                 | Inr fi \<Rightarrow> (None, f3))) \<and>
              trace b' = trace bucket @ (OpGet (Join bid MetaFilename), True) # evs \<and>
              (\<forall>p \<in> set ign. \<forall>ok. (OpGet (bid @ DirDelim @ p), ok) \<notin> set evs)))"
proof (intro conjI allI impI)
  show "(\<exists>e f1. os_MkdirAll f dst = (Some e, f1) \<and> r \<noteq> None \<and> b' = bucket)
          \<or> (\<exists>ok evs. trace b' = trace bucket @ (OpGet (Join bid MetaFilename), ok) # evs)"
    using assms by (rule Download_first_call)
next
  fix f1 b1 f2 m
  assume a: "os_MkdirAll f dst = (None, f1) \<and>
           DownloadFile bucket f1 (Join bid MetaFilename) (Join dst MetaFilename) = (None, b1, f2) \<and>
           ReadFromDir x f2 dst = Inr m"
  then have mk: "os_MkdirAll f dst = (None, f1)"
    and df: "DownloadFile bucket f1 (Join bid MetaFilename) (Join dst MetaFilename) = (None, b1, f2)"
    and rd: "ReadFromDir x f2 dst = Inr m"
    by simp_all
  let ?P = "\<lambda>fl. \<exists>h a. Hash fl = Some h \<and> Func h \<noteq> NoneFunc \<and>
                      CalculateHash x f2 (Join dst (RelPath fl)) (Func h) = Inr a \<and> Equal h a"
  let ?ign = "MetaFilename # map RelPath (filter ?P (Files (Thanos m)))"
  have dir: "map_of (nodes f2) dst = Some Directory"
    using os_MkdirAll_directory [OF mk] DownloadFile_frame [OF df, of dst] meta_path_neq_dir [of dst]
    by simp
  have nonempty: "?P fl \<Longrightarrow> RelPath fl \<noteq> []" for fl
  proof
    assume p: "?P fl" and e: "RelPath fl = []"
    from p obtain h :: ObjectHash and a
      where "CalculateHash x f2 (Join dst (RelPath fl)) (Func h) = Inr a" by blast
    moreover have "Join dst [] = dst" by (simp add: Join_def)
    ultimately have "CalculateHash x f2 dst (Func h) = Inr a" using e by simp
    with CalculateHash_directory [OF dir] show False by blast
  qed
  have "filter (\<lambda>fl. \<exists>h a. Hash fl = Some h \<and> Func h \<noteq> NoneFunc \<and> RelPath fl \<noteq> [] \<and>
        CalculateHash x f2 (Join dst (RelPath fl)) (Func h) = Inr a \<and> Equal h a) (Files (Thanos m))
      = filter ?P (Files (Thanos m))"
    by (rule filter_cong [OF refl]) (use nonempty in blast)
  then have ign: "ignored_paths x f2 dst (Files (Thanos m)) [MetaFilename] = ?ign"
    by (simp add: ignored_paths_eq)
  obtain r2 b2 f3 where dd: "DownloadDir b1 f2 bid bid dst ?ign = (r2, b2, f3)"
    by (cases "DownloadDir b1 f2 bid bid dst ?ign") auto
  from Download_after_descriptor [OF mk df rd dd [folded ign] assms]
  have b: "b' = b2" and r: "r2 \<noteq> None \<longrightarrow> r = r2 \<and> f' = f3"
    and rn: "r2 = None \<longrightarrow> (r, f') =
                (case os_Stat f3 (Join dst ChunksDirname) of
                   Inl err \<Rightarrow> if IsNotExist err then os_Mkdir f3 (Join dst ChunksDirname)
                              else (Some (Wrap err ''stat''), f3)
                 | Inr fi \<Rightarrow> (None, f3))"
    by simp_all
  from DownloadFile_trace [OF df]
  have t1: "trace b1 = trace bucket @ [(OpGet (Join bid MetaFilename), True)]" by auto
  from DownloadDir_trace [OF dd] obtain evs where t2: "trace b2 = trace b1 @ evs"
    and e: "\<forall>p \<in> set ?ign. \<forall>ok. (OpGet (bid @ DirDelim @ p), ok) \<notin> set evs"
    by blast
  from t1 t2 b have t: "trace b' = trace bucket @ (OpGet (Join bid MetaFilename), True) # evs"
    by simp
  from dd b r rn t e
  show "\<exists>ign r2 f3 evs.
              ign = ?ign \<and>
              DownloadDir b1 f2 bid bid dst ign = (r2, b', f3) \<and>
              (r2 \<noteq> None \<longrightarrow> r = r2 \<and> f' = f3) \<and>
              (r2 = None \<longrightarrow> (r, f') =
                (case os_Stat f3 (Join dst ChunksDirname) of
                   Inl err \<Rightarrow> if IsNotExist err then os_Mkdir f3 (Join dst ChunksDirname)
                              else (Some (Wrap err ''stat''), f3)
                 | Inr fi \<Rightarrow> (None, f3))) \<and>
              trace b' = trace bucket @ (OpGet (Join bid MetaFilename), True) # evs \<and>
              (\<forall>p \<in> set ign. \<forall>ok. (OpGet (bid @ DirDelim @ p), ok) \<notin> set evs)"
    by (intro exI [of _ ?ign] exI [of _ r2] exI [of _ f3] exI [of _ evs]) simp
qed

theorem Download_skips_matching_files_witness:
  "fst (Download example_lib stored_block stale_fs ''B'' ''e/B'') = None
   \<and> hd (trace (fst (snd (Download example_lib stored_block stale_fs ''B'' ''e/B'')))) = (OpGet ''B/meta.json'', True)
   \<and> (OpGet ''B/chunks/000001'', True) \<notin> set (trace (fst (snd (Download example_lib stored_block stale_fs ''B'' ''e/B''))))
   \<and> (OpGet ''B/chunks/000001'', False) \<notin> set (trace (fst (snd (Download example_lib stored_block stale_fs ''B'' ''e/B''))))
   \<and> (OpGet ''B/index'', True) \<in> set (trace (fst (snd (Download example_lib stored_block stale_fs ''B'' ''e/B''))))
   \<and> fst (Download example_lib stored_block fresh_fs ''B'' ''e/B'') = None
   \<and> hd (trace (fst (snd (Download example_lib stored_block fresh_fs ''B'' ''e/B'')))) = (OpGet ''B/meta.json'', True)
   \<and> (OpGet ''B/chunks/000001'', True) \<in> set (trace (fst (snd (Download example_lib stored_block fresh_fs ''B'' ''e/B''))))
   \<and> (OpGet ''B/index'', True) \<in> set (trace (fst (snd (Download example_lib stored_block fresh_fs ''B'' ''e/B''))))
   \<and> fst (os_MkdirAll stale_fs ''e/B'') = None
   \<and> fst (DownloadFile stored_block (snd (os_MkdirAll stale_fs ''e/B'')) (Join ''B'' MetaFilename) (Join ''e/B'' MetaFilename)) = None
   \<and> ReadFromDir example_lib (snd (snd (DownloadFile stored_block (snd (os_MkdirAll stale_fs ''e/B'')) (Join ''B'' MetaFilename) (Join ''e/B'' MetaFilename)))) ''e/B'' = Inr (example_meta 1 1 (Some [(''tenant'', ''a'')]) [\<lparr>RelPath = ''chunks/000001'', SizeBytes = 2, Hash = Some \<lparr>Func = ''SHA256'', Value = ''ba''\<rparr>\<rparr>, \<lparr>RelPath = ''index'', SizeBytes = 3, Hash = Some \<lparr>Func = ''SHA256'', Value = ''xdi''\<rparr>\<rparr>, \<lparr>RelPath = ''meta.json'', SizeBytes = 0, Hash = None\<rparr>])
   \<and> (\<exists>ign r2 f3 evs.
          ign = MetaFilename # map RelPath (filter (\<lambda>fl. \<exists>h a. Hash fl = Some h \<and> Func h \<noteq> NoneFunc \<and>
                  CalculateHash example_lib (snd (snd (DownloadFile stored_block (snd (os_MkdirAll stale_fs ''e/B'')) (Join ''B'' MetaFilename) (Join ''e/B'' MetaFilename)))) (Join ''e/B'' (RelPath fl)) (Func h) = Inr a \<and> Equal h a)
                (Files (Thanos (example_meta 1 1 (Some [(''tenant'', ''a'')]) [\<lparr>RelPath = ''chunks/000001'', SizeBytes = 2, Hash = Some \<lparr>Func = ''SHA256'', Value = ''ba''\<rparr>\<rparr>, \<lparr>RelPath = ''index'', SizeBytes = 3, Hash = Some \<lparr>Func = ''SHA256'', Value = ''xdi''\<rparr>\<rparr>, \<lparr>RelPath = ''meta.json'', SizeBytes = 0, Hash = None\<rparr>])))) \<and>
          DownloadDir (fst (snd (DownloadFile stored_block (snd (os_MkdirAll stale_fs ''e/B'')) (Join ''B'' MetaFilename) (Join ''e/B'' MetaFilename)))) (snd (snd (DownloadFile stored_block (snd (os_MkdirAll stale_fs ''e/B'')) (Join ''B'' MetaFilename) (Join ''e/B'' MetaFilename)))) ''B'' ''B'' ''e/B'' ign = (r2, fst (snd (Download example_lib stored_block stale_fs ''B'' ''e/B'')), f3) \<and>
          (r2 \<noteq> None \<longrightarrow> fst (Download example_lib stored_block stale_fs ''B'' ''e/B'') = r2 \<and> snd (snd (Download example_lib stored_block stale_fs ''B'' ''e/B'')) = f3) \<and>
          (r2 = None \<longrightarrow> (fst (Download example_lib stored_block stale_fs ''B'' ''e/B''), snd (snd (Download example_lib stored_block stale_fs ''B'' ''e/B''))) =
             (case os_Stat f3 (Join ''e/B'' ChunksDirname) of
                Inl err \<Rightarrow> if IsNotExist err then os_Mkdir f3 (Join ''e/B'' ChunksDirname)
                           else (Some (Wrap err ''stat''), f3)
              | Inr fi \<Rightarrow> (None, f3))) \<and>
          trace (fst (snd (Download example_lib stored_block stale_fs ''B'' ''e/B''))) = trace stored_block @ (OpGet (Join ''B'' MetaFilename), True) # evs \<and>
          (\<forall>p \<in> set ign. \<forall>ok. (OpGet (''B'' @ DirDelim @ p), ok) \<notin> set evs))"
proof -
  have h: "Download example_lib stored_block stale_fs ''B'' ''e/B'' = (fst (Download example_lib stored_block stale_fs ''B'' ''e/B''), fst (snd (Download example_lib stored_block stale_fs ''B'' ''e/B'')), snd (snd (Download example_lib stored_block stale_fs ''B'' ''e/B'')))"
    by simp
  have r: "fst (Download example_lib stored_block stale_fs ''B'' ''e/B'') = None" by code_simp
  have t1: "hd (trace (fst (snd (Download example_lib stored_block stale_fs ''B'' ''e/B'')))) = (OpGet ''B/meta.json'', True)"
    by code_simp
  have t2: "(OpGet ''B/chunks/000001'', True) \<notin> set (trace (fst (snd (Download example_lib stored_block stale_fs ''B'' ''e/B''))))"
    by code_simp
  have t3: "(OpGet ''B/chunks/000001'', False) \<notin> set (trace (fst (snd (Download example_lib stored_block stale_fs ''B'' ''e/B''))))"
    by code_simp
  have t4: "(OpGet ''B/index'', True) \<in> set (trace (fst (snd (Download example_lib stored_block stale_fs ''B'' ''e/B''))))"
    by code_simp
  have u0: "fst (Download example_lib stored_block fresh_fs ''B'' ''e/B'') = None" by code_simp
  have u1: "hd (trace (fst (snd (Download example_lib stored_block fresh_fs ''B'' ''e/B'')))) = (OpGet ''B/meta.json'', True)"
    by code_simp
  have u2: "(OpGet ''B/chunks/000001'', True) \<in> set (trace (fst (snd (Download example_lib stored_block fresh_fs ''B'' ''e/B''))))"
    by code_simp
  have u3: "(OpGet ''B/index'', True) \<in> set (trace (fst (snd (Download example_lib stored_block fresh_fs ''B'' ''e/B''))))"
    by code_simp
  have m1: "fst (os_MkdirAll stale_fs ''e/B'') = None" by code_simp
  have m2: "fst (DownloadFile stored_block (snd (os_MkdirAll stale_fs ''e/B'')) (Join ''B'' MetaFilename) (Join ''e/B'' MetaFilename)) = None" by code_simp
  have m3: "ReadFromDir example_lib (snd (snd (DownloadFile stored_block (snd (os_MkdirAll stale_fs ''e/B'')) (Join ''B'' MetaFilename) (Join ''e/B'' MetaFilename)))) ''e/B'' = Inr (example_meta 1 1 (Some [(''tenant'', ''a'')]) [\<lparr>RelPath = ''chunks/000001'', SizeBytes = 2, Hash = Some \<lparr>Func = ''SHA256'', Value = ''ba''\<rparr>\<rparr>, \<lparr>RelPath = ''index'', SizeBytes = 3, Hash = Some \<lparr>Func = ''SHA256'', Value = ''xdi''\<rparr>\<rparr>, \<lparr>RelPath = ''meta.json'', SizeBytes = 0, Hash = None\<rparr>])"
    by code_simp
  have e1: "os_MkdirAll stale_fs ''e/B'' = (None, snd (os_MkdirAll stale_fs ''e/B''))"
    using m1 by (simp add: prod_eq_iff)
  have e2: "DownloadFile stored_block (snd (os_MkdirAll stale_fs ''e/B'')) (Join ''B'' MetaFilename) (Join ''e/B'' MetaFilename) = (None, fst (snd (DownloadFile stored_block (snd (os_MkdirAll stale_fs ''e/B'')) (Join ''B'' MetaFilename) (Join ''e/B'' MetaFilename))), snd (snd (DownloadFile stored_block (snd (os_MkdirAll stale_fs ''e/B'')) (Join ''B'' MetaFilename) (Join ''e/B'' MetaFilename))))"
    using m2 by (simp add: prod_eq_iff)
  note g = Download_skips_matching_files [OF h, THEN conjunct2, rule_format, OF conjI [OF e1 conjI [OF e2 m3]]]
  from r t1 t2 t3 t4 u0 u1 u2 u3 m1 m2 m3 g show ?thesis by (intro conjI)
qed

section \<open>Properties of the deleter\<close>

text \<open>A run of \<^verbatim>\<open>Delete\<close> is followed on the trace of the bucket. The lemmas below say
  what the recursive deletion does to the trace and to the store: it deletes no name that is to
  be kept and none that ends in the delimiter, the store only shrinks, a run stops at its first
  failed call, a run without error leaves below the directory only kept names and names that end
  in the delimiter, and a depth beyond the length of the longest object name is enough for the
  recursion to return.\<close>

lemma deletions_append [simp]: "deletions (xs @ ys) = deletions xs @ deletions ys"
  by (induction xs rule: deletions.induct) simp_all
































end
